theory Spec2Isabelle
  imports Complex_Main "HOL-Library.Word"
begin

section \<open>JavaScript numbers\<close>

text \<open>
  The program computes with JavaScript numbers (IEEE 754 doubles). They are modelled as
  the reals extended by the three special values the program can produce and test:
  \<open>NaN\<close>, \<open>Infinity\<close> and \<open>-Infinity\<close>. Rounding, overflow of finite results and the
  sign of zero are not modelled: a finite result is the exact real result. In the program
  a sum or a product of magnitude beyond about 1.8e308 is an infinity, a product other
  than 0 of magnitude below about 5e-324 is 0, and every other result is rounded to 53
  bits. The theorems on the face normal and on the index grids therefore bound their
  inputs (\<open>gridPoint\<close>, \<open>withinRange\<close> below) to magnitudes at which no result of the
  program leaves the range of doubles.
\<close>

datatype number = NaN | NegInfinity | Num real | Infinity

definition isFinite :: "number \<Rightarrow> bool" where
  "isFinite a = (case a of Num r \<Rightarrow> True | _ \<Rightarrow> False)"

fun sign_of :: "number \<Rightarrow> real" where
  "sign_of (Num r) = sgn r"
| "sign_of Infinity = 1"
| "sign_of NegInfinity = - 1"
| "sign_of NaN = 0"

definition inf_of_sign :: "real \<Rightarrow> number" where
  "inf_of_sign s = (if s = 0 then NaN else if 0 < s then Infinity else NegInfinity)"

instantiation number :: "{plus, minus, uminus, times, inverse, ord}"
begin

fun uminus_number :: "number \<Rightarrow> number" where
  "uminus_number NaN = NaN"
| "uminus_number NegInfinity = Infinity"
| "uminus_number (Num r) = Num (- r)"
| "uminus_number Infinity = NegInfinity"

fun plus_number :: "number \<Rightarrow> number \<Rightarrow> number" where
  "plus_number (Num a) (Num b) = Num (a + b)"
| "plus_number NaN b = NaN"
| "plus_number a NaN = NaN"
| "plus_number Infinity NegInfinity = NaN"
| "plus_number NegInfinity Infinity = NaN"
| "plus_number Infinity b = Infinity"
| "plus_number a Infinity = Infinity"
| "plus_number NegInfinity b = NegInfinity"
| "plus_number a NegInfinity = NegInfinity"

definition minus_number :: "number \<Rightarrow> number \<Rightarrow> number" where
  "minus_number a b = a + (- b)"

fun times_number :: "number \<Rightarrow> number \<Rightarrow> number" where
  "times_number (Num a) (Num b) = Num (a * b)"
| "times_number NaN b = NaN"
| "times_number a NaN = NaN"
| "times_number a b = inf_of_sign (sign_of a * sign_of b)"

fun divide_number :: "number \<Rightarrow> number \<Rightarrow> number" where
  "divide_number (Num a) (Num b) = (if b = 0 then inf_of_sign (sgn a) else Num (a / b))"
| "divide_number NaN b = NaN"
| "divide_number a NaN = NaN"
| "divide_number (Num a) b = Num 0"
| "divide_number a (Num b) = inf_of_sign (sign_of a * (if 0 \<le> b then 1 else - 1))"
| "divide_number a b = NaN"

definition inverse_number :: "number \<Rightarrow> number" where
  "inverse_number a = divide (Num 1) a"

fun less_number :: "number \<Rightarrow> number \<Rightarrow> bool" where
  "less_number (Num a) (Num b) = (a < b)"
| "less_number NaN b = False"
| "less_number a NaN = False"
| "less_number a NegInfinity = False"
| "less_number Infinity b = False"
| "less_number a b = True"

definition less_eq_number :: "number \<Rightarrow> number \<Rightarrow> bool" where
  "less_eq_number a b = (a < b \<or> (a = b \<and> a \<noteq> NaN))"

instance ..

end

text \<open>\<open>a === b\<close> on numbers: \<open>NaN\<close> equals nothing, itself included.\<close>

definition strictEq :: "number \<Rightarrow> number \<Rightarrow> bool" where
  "strictEq a b = (a \<noteq> NaN \<and> a = b)"

text \<open>\<open>Math.max(a, b)\<close> and \<open>Math.min(a, b)\<close>: \<open>NaN\<close> if an argument is \<open>NaN\<close>.\<close>

definition Math_max :: "number \<Rightarrow> number \<Rightarrow> number" where
  "Math_max a b = (if a = NaN \<or> b = NaN then NaN else if a < b then b else a)"

definition Math_min :: "number \<Rightarrow> number \<Rightarrow> number" where
  "Math_min a b = (if a = NaN \<or> b = NaN then NaN else if b < a then b else a)"

fun Math_floor :: "number \<Rightarrow> number" where
  "Math_floor (Num r) = Num (of_int \<lfloor>r\<rfloor>)"
| "Math_floor a = a"

text \<open>\<open>Math.round\<close> rounds to the nearest integer, a half towards \<open>+Infinity\<close>.\<close>

fun Math_round :: "number \<Rightarrow> number" where
  "Math_round (Num r) = Num (of_int \<lfloor>r + 1 / 2\<rfloor>)"
| "Math_round a = a"

fun Math_abs :: "number \<Rightarrow> number" where
  "Math_abs (Num r) = Num \<bar>r\<bar>"
| "Math_abs NaN = NaN"
| "Math_abs a = Infinity"

fun Math_sqrt :: "number \<Rightarrow> number" where
  "Math_sqrt (Num r) = (if r < 0 then NaN else Num (sqrt r))"
| "Math_sqrt Infinity = Infinity"
| "Math_sqrt a = NaN"

text \<open>
  \<open>Math.pow(base, exponent)\<close> for a finite exponent that is not an integer (the program
  calls it with the exponent 1.2 only); for other exponents the model returns \<open>NaN\<close>.
\<close>

fun Math_pow :: "number \<Rightarrow> number \<Rightarrow> number" where
  "Math_pow base (Num e) =
     (if e \<in> \<int> then NaN
      else case base of
        NaN \<Rightarrow> NaN
      | Infinity \<Rightarrow> (if 0 < e then Infinity else Num 0)
      | NegInfinity \<Rightarrow> (if 0 < e then Infinity else Num 0)
      | Num b \<Rightarrow>
          (if b < 0 then NaN
           else if b = 0 then (if 0 < e then Num 0 else Infinity)
           else Num (b powr e)))"
| "Math_pow base e = NaN"

fun Math_tan :: "number \<Rightarrow> number" where
  "Math_tan (Num r) = Num (tan r)"
| "Math_tan a = NaN"

fun Math_cos :: "number \<Rightarrow> number" where
  "Math_cos (Num r) = Num (cos r)"
| "Math_cos a = NaN"

fun Math_sin :: "number \<Rightarrow> number" where
  "Math_sin (Num r) = Num (sin r)"
| "Math_sin a = NaN"

definition Math_PI :: number where
  "Math_PI = Num pi"

text \<open>
  \<open>a % b\<close>: the remainder of the division truncated towards zero; its sign is the
  dividend's.
\<close>

definition trunc_real :: "real \<Rightarrow> int" where
  "trunc_real q = (if 0 \<le> q then \<lfloor>q\<rfloor> else \<lceil>q\<rceil>)"

fun js_rem :: "number \<Rightarrow> number \<Rightarrow> number" where
  "js_rem (Num a) (Num b) = (if b = 0 then NaN else Num (a - b * of_int (trunc_real (a / b))))"
| "js_rem (Num a) Infinity = Num a"
| "js_rem (Num a) NegInfinity = Num a"
| "js_rem a b = NaN"

section \<open>Vector3 and Triangle\<close>

datatype Vector3 = Vector3 (vec_x: number) (vec_y: number) (vec_z: number)

text \<open>\<open>new Vector3()\<close>: the components default to 0.\<close>

definition Vector3_zero :: Vector3 where
  "Vector3_zero = Vector3 (Num 0) (Num 0) (Num 0)"

definition add :: "Vector3 \<Rightarrow> Vector3 \<Rightarrow> Vector3" where
  "add a v = Vector3 (vec_x a + vec_x v) (vec_y a + vec_y v) (vec_z a + vec_z v)"

definition subtract :: "Vector3 \<Rightarrow> Vector3 \<Rightarrow> Vector3" where
  "subtract a v = Vector3 (vec_x a - vec_x v) (vec_y a - vec_y v) (vec_z a - vec_z v)"

definition multiply :: "Vector3 \<Rightarrow> number \<Rightarrow> Vector3" where
  "multiply a scalar = Vector3 (vec_x a * scalar) (vec_y a * scalar) (vec_z a * scalar)"

definition dot :: "Vector3 \<Rightarrow> Vector3 \<Rightarrow> number" where
  "dot a v = vec_x a * vec_x v + vec_y a * vec_y v + vec_z a * vec_z v"

definition cross :: "Vector3 \<Rightarrow> Vector3 \<Rightarrow> Vector3" where
  "cross a v = Vector3
     (vec_y a * vec_z v - vec_z a * vec_y v)
     (vec_z a * vec_x v - vec_x a * vec_z v)
     (vec_x a * vec_y v - vec_y a * vec_x v)"

definition vec_length :: "Vector3 \<Rightarrow> number" where
  "vec_length a = Math_sqrt (vec_x a * vec_x a + vec_y a * vec_y a + vec_z a * vec_z a)"

definition vec_normalize :: "Vector3 \<Rightarrow> Vector3" where
  "vec_normalize a =
     (let len = Math_sqrt (vec_x a * vec_x a + vec_y a * vec_y a + vec_z a * vec_z a)
      in if strictEq len (Num 0) then Vector3_zero
         else Vector3 (vec_x a / len) (vec_y a / len) (vec_z a / len))"

record Triangle =
  tri_v1 :: Vector3
  tri_v2 :: Vector3
  tri_v3 :: Vector3
  tri_normal :: Vector3
  tri_vn1 :: "Vector3 option"
  tri_vn2 :: "Vector3 option"
  tri_vn3 :: "Vector3 option"

definition calculateNormal :: "Vector3 \<Rightarrow> Vector3 \<Rightarrow> Vector3 \<Rightarrow> Vector3" where
  "calculateNormal v1 v2 v3 =
     (let edge1 = subtract v2 v1;
          edge2 = subtract v3 v1
      in vec_normalize (cross edge1 edge2))"

text \<open>
  The constructor: \<open>normal || this.calculateNormal()\<close> takes the supplied normal when
  there is one (an object is never falsy); the per-vertex normals start as \<open>null\<close>.
\<close>

definition new_Triangle :: "Vector3 \<Rightarrow> Vector3 \<Rightarrow> Vector3 \<Rightarrow> Vector3 option \<Rightarrow> Triangle" where
  "new_Triangle v1 v2 v3 normal =
     \<lparr> tri_v1 = v1, tri_v2 = v2, tri_v3 = v3,
       tri_normal = (case normal of Some n \<Rightarrow> n | None \<Rightarrow> calculateNormal v1 v2 v3),
       tri_vn1 = None, tri_vn2 = None, tri_vn3 = None \<rparr>"

section \<open>STLParser\<close>

type_synonym byte = "8 word"

text \<open>A JavaScript string is its sequence of UTF-16 code units.\<close>

type_synonym jsstring = "nat list"

definition str :: "string \<Rightarrow> jsstring" where
  "str s = map of_char s"

datatype error = RangeError | TypeError

subsection \<open>Buffer reads\<close>

text \<open>
  \<open>buf.readUInt32LE(offset)\<close> and \<open>buf.readFloatLE(offset)\<close> throw a \<open>RangeError\<close>
  unless the four bytes lie inside the buffer.
\<close>

definition le32 :: "byte list \<Rightarrow> nat \<Rightarrow> nat" where
  "le32 bs off = unat (bs ! off) + 256 * unat (bs ! (off + 1))
     + 65536 * unat (bs ! (off + 2)) + 16777216 * unat (bs ! (off + 3))"

definition readUInt32LE :: "byte list \<Rightarrow> nat \<Rightarrow> error + nat" where
  "readUInt32LE bs off = (if off + 4 \<le> length bs then Inr (le32 bs off) else Inl RangeError)"

text \<open>The value of an IEEE 754 binary32 bit pattern; every such value is a double.\<close>

definition float32 :: "nat \<Rightarrow> number" where
  "float32 bits =
     (let negative = (bits div 2 ^ 31 = 1);
          e = (bits div 2 ^ 23) mod 256;
          m = bits mod 2 ^ 23;
          s = (if negative then - 1 else 1 :: real)
      in if e = 255 then (if m = 0 then (if negative then NegInfinity else Infinity) else NaN)
         else if e = 0 then Num (s * real m / 2 ^ 149)
         else if 150 \<le> e then Num (s * real (2 ^ 23 + m) * 2 ^ (e - 150))
         else Num (s * real (2 ^ 23 + m) / 2 ^ (150 - e)))"

definition readFloatLE :: "byte list \<Rightarrow> nat \<Rightarrow> error + number" where
  "readFloatLE bs off =
     (if off + 4 \<le> length bs then Inr (float32 (le32 bs off)) else Inl RangeError)"

text \<open>Three consecutive floats, read in order, as a vector.\<close>

definition readVector3 :: "byte list \<Rightarrow> nat \<Rightarrow> error + Vector3" where
  "readVector3 bs off =
     (case readFloatLE bs off of Inl e \<Rightarrow> Inl e | Inr a \<Rightarrow>
      case readFloatLE bs (off + 4) of Inl e \<Rightarrow> Inl e | Inr b \<Rightarrow>
      case readFloatLE bs (off + 8) of Inl e \<Rightarrow> Inl e | Inr c \<Rightarrow>
      Inr (Vector3 a b c))"

subsection \<open>parseBinarySTL\<close>

text \<open>
  The loop \<open>for (let i = 0; i < triangleCount; i++)\<close>: the first argument counts the
  iterations that remain.
\<close>

fun parseBinaryLoop :: "nat \<Rightarrow> byte list \<Rightarrow> nat \<Rightarrow> Triangle list \<Rightarrow> error + Triangle list" where
  "parseBinaryLoop 0 bs off triangles = Inr triangles"
| "parseBinaryLoop (Suc n) bs off triangles =
     (case readVector3 bs off of Inl e \<Rightarrow> Inl e | Inr normal \<Rightarrow>
      case readVector3 bs (off + 12) of Inl e \<Rightarrow> Inl e | Inr v1 \<Rightarrow>
      case readVector3 bs (off + 24) of Inl e \<Rightarrow> Inl e | Inr v2 \<Rightarrow>
      case readVector3 bs (off + 36) of Inl e \<Rightarrow> Inl e | Inr v3 \<Rightarrow>
      parseBinaryLoop n bs (off + 50) (triangles @ [new_Triangle v1 v2 v3 (Some normal)]))"

definition parseBinarySTL :: "byte list \<Rightarrow> error + Triangle list" where
  "parseBinarySTL bs =
     (case readUInt32LE bs 80 of Inl e \<Rightarrow> Inl e | Inr triangleCount \<Rightarrow>
      parseBinaryLoop triangleCount bs 84 [])"

subsection \<open>parseAsciiSTL\<close>

text \<open>
  White space as \<open>String.prototype.trim\<close> and the regular expression class \<open>\s\<close> see it:
  the ECMAScript white space and line terminator code points.
\<close>

definition isWhiteSpace :: "nat \<Rightarrow> bool" where
  "isWhiteSpace c = (c \<in> {9, 10, 11, 12, 13, 32, 160, 5760, 8232, 8233, 8239, 8287, 12288, 65279}
     \<or> (8192 \<le> c \<and> c \<le> 8202))"

definition trim :: "jsstring \<Rightarrow> jsstring" where
  "trim s = rev (dropWhile isWhiteSpace (rev (dropWhile isWhiteSpace s)))"

text \<open>\<open>text.split('\n')\<close>: the pieces between line feeds; an empty text is one empty line.\<close>

fun split_lines :: "jsstring \<Rightarrow> jsstring list" where
  "split_lines [] = [[]]"
| "split_lines (c # cs) =
     (if c = 10 then [] # split_lines cs
      else case split_lines cs of l # ls \<Rightarrow> (c # l) # ls | [] \<Rightarrow> [[c]])"

text \<open>
  \<open>line.split(/\s+/)\<close>: the pieces between maximal runs of white space; a run at the
  start or the end of the line leaves an empty piece there.
\<close>

function split_ws :: "jsstring \<Rightarrow> jsstring list" where
  "split_ws s =
     (let tok = takeWhile (\<lambda>c. \<not> isWhiteSpace c) s;
          rest = dropWhile (\<lambda>c. \<not> isWhiteSpace c) s
      in if rest = [] then [tok] else tok # split_ws (dropWhile isWhiteSpace rest))"
  by pat_completeness auto
termination
proof (relation "measure length")
  fix s tok rest :: jsstring
  assume r: "rest = dropWhile (\<lambda>c. \<not> isWhiteSpace c) s" and ne: "rest \<noteq> []"
  from ne obtain c cs where rc: "rest = c # cs" by (cases rest) auto
  have "isWhiteSpace c" using r rc by (auto simp: dropWhile_eq_Cons_conv dest: sym)
  then have "length (dropWhile isWhiteSpace rest) \<le> length cs"
    using rc length_dropWhile_le [of isWhiteSpace cs] by simp
  moreover have "length rest \<le> length s" using r by (simp add: length_dropWhile_le)
  ultimately show "(dropWhile isWhiteSpace rest, s) \<in> measure length" using rc by simp
qed simp

declare split_ws.simps [simp del]

definition startsWith :: "jsstring \<Rightarrow> jsstring \<Rightarrow> bool" where
  "startsWith s p = (take (length p) s = p)"

text \<open>
  \<open>parts[k]\<close> as the argument of \<open>parseFloat\<close>: an index past the end is \<open>undefined\<close>,
  which \<open>parseFloat\<close> converts to the string \<open>"undefined"\<close>.
\<close>

definition part :: "jsstring list \<Rightarrow> nat \<Rightarrow> jsstring" where
  "part parts k = (if k < length parts then parts ! k else str ''undefined'')"

text \<open>
  The loop \<open>for (let j = 0; j < 3; j++)\<close> over the vertex lines: the second argument
  counts the iterations that remain. \<open>lines[i]\<close> past the end is \<open>undefined\<close>, and
  \<open>undefined.split\<close> throws a \<open>TypeError\<close>. \<open>parseFloat\<close> is the platform's; it is the
  parameter \<open>pf\<close>.
\<close>

fun vertexLoop :: "(jsstring \<Rightarrow> number) \<Rightarrow> nat \<Rightarrow> jsstring list \<Rightarrow> nat \<Rightarrow> Vector3 list
    \<Rightarrow> error + (Vector3 list \<times> nat)" where
  "vertexLoop pf 0 lines i vertices = Inr (vertices, i)"
| "vertexLoop pf (Suc n) lines i vertices =
     (if i < length lines then
        let vertexLine = lines ! i;
            vertexParts = split_ws vertexLine
        in vertexLoop pf n lines (i + 1)
             (vertices @ [Vector3 (pf (part vertexParts 1)) (pf (part vertexParts 2))
                                  (pf (part vertexParts 3))])
      else Inl TypeError)"

function parseAsciiLoop :: "(jsstring \<Rightarrow> number) \<Rightarrow> jsstring list \<Rightarrow> nat \<Rightarrow> Triangle list
    \<Rightarrow> error + Triangle list" where
  "parseAsciiLoop pf lines i triangles =
     (if i < length lines then
        let line = lines ! i in
        if startsWith line (str ''facet normal'') then
          let normalParts = split_ws line;
              normal = Vector3 (pf (part normalParts 2)) (pf (part normalParts 3))
                               (pf (part normalParts 4))
          in case vertexLoop pf 3 lines (i + 2) [] of
               Inl e \<Rightarrow> Inl e
             | Inr (vertices, i') \<Rightarrow>
                 parseAsciiLoop pf lines (i + 7)
                   (triangles @ [new_Triangle (vertices ! 0) (vertices ! 1) (vertices ! 2)
                                   (Some normal)])
        else parseAsciiLoop pf lines (i + 1) triangles
      else Inr triangles)"
  by pat_completeness auto
termination
  by (relation "measure (\<lambda>(pf, lines, i, triangles). length lines - i)") auto

declare parseAsciiLoop.simps [simp del]

definition parseAsciiSTL :: "(jsstring \<Rightarrow> number) \<Rightarrow> jsstring \<Rightarrow> error + Triangle list" where
  "parseAsciiSTL pf text' =
     (let lines = map trim (split_lines text') in parseAsciiLoop pf lines 0 [])"

subsection \<open>parseSTL\<close>

text \<open>
  \<open>parseSTL\<close> on the bytes that \<open>fs.readFileSync\<close> returned. \<open>data.toString()\<close> is the
  platform's UTF-8 decoder; it is the parameter \<open>toString\<close>.
\<close>

definition parseSTL :: "(byte list \<Rightarrow> jsstring) \<Rightarrow> (jsstring \<Rightarrow> number) \<Rightarrow> byte list
    \<Rightarrow> error + Triangle list" where
  "parseSTL toString pf data =
     (if length data > 84 then
        case readUInt32LE data 80 of
          Inl e \<Rightarrow> Inl e
        | Inr triangleCount \<Rightarrow>
            let expectedSize = 80 + 4 + triangleCount * 50
            in if length data = expectedSize then parseBinarySTL data
               else parseAsciiSTL pf (toString data)
      else parseAsciiSTL pf (toString data))"


section \<open>TerminalRenderer\<close>

text \<open>
  The renderer's state. The constructor allocates the four grids with \<open>height\<close> rows of
  \<open>width\<close> cells, and no method changes their shape. A missing or zero size is replaced
  by the terminal's before the grids are allocated; \<open>w\<close> and \<open>h\<close> below are the sizes
  after that replacement. \<open>frameIntervalMs\<close> only paces the timer and is left out.
\<close>

record TerminalRenderer =
  width :: nat
  height :: nat
  usePerPixelLighting :: bool
  buffer :: "char list list"
  indexBuffer :: "number list list"
  prevIndexBuffer :: "number list list"
  depthBuffer :: "number list list"

definition asciiChars :: string where
  "asciiChars = '' .:-+*=%@#''"

definition new_TerminalRenderer :: "nat \<Rightarrow> nat \<Rightarrow> bool \<Rightarrow> TerminalRenderer" where
  "new_TerminalRenderer w h perPixelLighting =
     \<lparr> width = w, height = h, usePerPixelLighting = perPixelLighting,
       buffer = replicate h (replicate w (CHR '' '')),
       indexBuffer = replicate h (replicate w (Num (- 1))),
       prevIndexBuffer = replicate h (replicate w (Num (- 1))),
       depthBuffer = replicate h (replicate w Infinity) \<rparr>"

text \<open>\<open>grid[y][x] = v\<close> for indices inside the grid.\<close>

definition update2 :: "'a list list \<Rightarrow> nat \<Rightarrow> nat \<Rightarrow> 'a \<Rightarrow> 'a list list" where
  "update2 grid y x v = grid[y := (grid ! y)[x := v]]"

subsection \<open>clear\<close>

definition clearCell :: "nat \<Rightarrow> nat \<Rightarrow> TerminalRenderer \<Rightarrow> TerminalRenderer" where
  "clearCell y x r =
     r\<lparr> buffer := update2 (buffer r) y x (CHR '' ''),
        indexBuffer := update2 (indexBuffer r) y x (Num (- 1)),
        depthBuffer := update2 (depthBuffer r) y x Infinity \<rparr>"

definition clear :: "TerminalRenderer \<Rightarrow> TerminalRenderer" where
  "clear r = fold (\<lambda>y. fold (clearCell y) [0 ..< width r]) [0 ..< height r] r"

subsection \<open>projectToScreen\<close>

datatype Point = Point (scr_x: number) (scr_y: number) (scr_z: number)

definition projectToScreen :: "TerminalRenderer \<Rightarrow> Vector3 \<Rightarrow> number \<Rightarrow> Point" where
  "projectToScreen r point cameraDistance =
     (let z = vec_z point + cameraDistance in
      if z \<le> Num 0.1 then Point (Num (- 1)) (Num (- 1)) (vec_z point)
      else
        let fov = Num 45 * Math_PI / Num 180;
            charAspectRatio = Num 2;
            scale = Math_tan (fov / Num 2) * z;
            screenX = (vec_x point / scale) * (Num (real (width r)) * Num 0.3)
                        + Num (real (width r)) / Num 2;
            screenY = (- vec_y point / scale) * (Num (real (height r)) * Num 0.3) * charAspectRatio
                        + Num (real (height r)) / Num 2
        in Point (Math_floor (screenX + Num 0.5)) (Math_floor (screenY + Num 0.25)) (vec_z point))"

subsection \<open>applyMatrix and createRotationMatrix\<close>

type_synonym Matrix =
  "(number \<times> number \<times> number) \<times> (number \<times> number \<times> number) \<times> (number \<times> number \<times> number)"

fun applyMatrix :: "Vector3 \<Rightarrow> Matrix \<Rightarrow> Vector3" where
  "applyMatrix v ((m00, m01, m02), (m10, m11, m12), (m20, m21, m22)) = Vector3
     (vec_x v * m00 + vec_y v * m01 + vec_z v * m02)
     (vec_x v * m10 + vec_y v * m11 + vec_z v * m12)
     (vec_x v * m20 + vec_y v * m21 + vec_z v * m22)"

definition createRotationMatrix :: "number \<Rightarrow> number \<Rightarrow> number \<Rightarrow> Matrix" where
  "createRotationMatrix angleX0 angleY0 angleZ0 =
     (let angleX = js_rem angleX0 (Num 2 * Math_PI);
          angleY = js_rem angleY0 (Num 2 * Math_PI);
          angleZ = js_rem angleZ0 (Num 2 * Math_PI);
          cosX = Math_cos angleX; sinX = Math_sin angleX;
          cosY = Math_cos angleY; sinY = Math_sin angleY;
          cosZ = Math_cos angleZ; sinZ = Math_sin angleZ
      in ((cosY * cosZ, - cosY * sinZ, sinY),
          (sinX * sinY * cosZ + cosX * sinZ, - sinX * sinY * sinZ + cosX * cosZ, - sinX * cosY),
          (- cosX * sinY * cosZ + sinX * sinZ, cosX * sinY * sinZ + sinX * cosZ, cosX * cosY)))"

subsection \<open>isPointInTriangle\<close>

text \<open>The denominator that \<open>isPointInTriangle\<close> computes and tests.\<close>

definition containmentDenom :: "Point \<Rightarrow> Point \<Rightarrow> Point \<Rightarrow> number" where
  "containmentDenom p1 p2 p3 =
     (scr_y p2 - scr_y p3) * (scr_x p1 - scr_x p3) + (scr_x p3 - scr_x p2) * (scr_y p1 - scr_y p3)"

definition isPointInTriangle :: "number \<Rightarrow> number \<Rightarrow> Point \<Rightarrow> Point \<Rightarrow> Point \<Rightarrow> bool" where
  "isPointInTriangle px py p1 p2 p3 =
     (let denom = containmentDenom p1 p2 p3 in
      if Math_abs denom < Num 0.001 then False
      else
        let a = ((scr_y p2 - scr_y p3) * (px - scr_x p3) + (scr_x p3 - scr_x p2) * (py - scr_y p3)) / denom;
            b = ((scr_y p3 - scr_y p1) * (px - scr_x p3) + (scr_x p1 - scr_x p3) * (py - scr_y p3)) / denom;
            c = Num 1 - a - b
        in a \<ge> Num 0 \<and> b \<ge> Num 0 \<and> c \<ge> Num 0)"

subsection \<open>Lighting\<close>

text \<open>
  The light intensity computed in \<open>drawTriangle\<close> from the transformed face normal, and
  the index into the character ramp that it gives.
\<close>

definition lightIntensity :: "Vector3 \<Rightarrow> Vector3 \<Rightarrow> number" where
  "lightIntensity normal lightDirection =
     (let dotProduct = dot normal lightDirection;
          directionalLight = Math_max (Num 0) dotProduct;
          ambientLight = Num 0.35;
          smoothLight = Math_pow directionalLight (Num 1.2) * Num 0.7;
          lightIntensity0 = Math_max (Num 0.25) (smoothLight + ambientLight)
      in Math_min (Num 1) lightIntensity0)"

definition charIndexOf :: "number \<Rightarrow> number" where
  "charIndexOf intensity = Math_floor (intensity * (Num (real (length asciiChars)) - Num 1))"

text \<open>
  The per-pixel branch of \<open>rasterizeTriangle\<close>: the denominator it computes anew, the
  normal interpolated at the cell, and the intensity there.
\<close>

definition perPixelDenom :: "Point \<Rightarrow> Point \<Rightarrow> Point \<Rightarrow> number" where
  "perPixelDenom p1 p2 p3 =
     (scr_y p2 - scr_y p3) * (scr_x p1 - scr_x p3) + (scr_x p3 - scr_x p2) * (scr_y p1 - scr_y p3)"

definition interpolatedNormal ::
    "Point \<Rightarrow> Point \<Rightarrow> Point \<Rightarrow> Vector3 \<times> Vector3 \<times> Vector3 \<Rightarrow> number \<Rightarrow> number \<Rightarrow> Vector3" where
  "interpolatedNormal p1 p2 p3 vertexNormals x y =
     (case vertexNormals of (vn0, vn1, vn2) \<Rightarrow>
      let denom = perPixelDenom p1 p2 p3;
          a = ((scr_y p2 - scr_y p3) * (x - scr_x p3) + (scr_x p3 - scr_x p2) * (y - scr_y p3)) / denom;
          b = ((scr_y p3 - scr_y p1) * (x - scr_x p3) + (scr_x p1 - scr_x p3) * (y - scr_y p3)) / denom;
          c = Num 1 - a - b;
          nx = vec_x vn0 * a + vec_x vn1 * b + vec_x vn2 * c;
          ny = vec_y vn0 * a + vec_y vn1 * b + vec_y vn2 * c;
          nz = vec_z vn0 * a + vec_z vn1 * b + vec_z vn2 * c
      in vec_normalize (Vector3 nx ny nz))"

definition perPixelIntensity :: "Vector3 \<Rightarrow> Vector3 \<Rightarrow> number" where
  "perPixelIntensity nInterp lightDirection =
     (let dLight = Math_max (Num 0) (dot nInterp lightDirection);
          ambient = Num 0.35;
          smooth = Math_pow dLight (Num 1.2) * Num 0.7
      in Math_min (Num 1) (Math_max (Num 0.25) (ambient + smooth)))"

text \<open>
  \<open>effectiveIndex\<close>: the index of the flat shading, or the per-pixel one when per-pixel
  lighting is on and the normals and the light are given.
\<close>

definition effectiveIndex :: "TerminalRenderer \<Rightarrow> Point \<Rightarrow> Point \<Rightarrow> Point \<Rightarrow> number
    \<Rightarrow> (Vector3 \<times> Vector3 \<times> Vector3) option \<Rightarrow> Vector3 option \<Rightarrow> number \<Rightarrow> number \<Rightarrow> number" where
  "effectiveIndex r p1 p2 p3 charIndex vertexNormals lightDirection x y =
     (case (usePerPixelLighting r, vertexNormals, lightDirection) of
        (True, Some vns, Some ld) \<Rightarrow>
          charIndexOf (perPixelIntensity (interpolatedNormal p1 p2 p3 vns x y) ld)
      | _ \<Rightarrow> charIndex)"

text \<open>The temporal smoothing of an index with the cell's index of the previous frame.\<close>

definition blendedIndex :: "number \<Rightarrow> number \<Rightarrow> number" where
  "blendedIndex prevIdx effIndex =
     (if \<not> strictEq prevIdx (Num (- 1))
      then Math_round (prevIdx * Num 0.3 + effIndex * Num 0.7)
      else effIndex)"

subsection \<open>rasterizeTriangle\<close>

text \<open>
  Reading \<open>grid[y][x]\<close> with numbers as indices: \<open>grid[y]\<close> is a row when \<open>y\<close> is an
  integer inside the grid and \<open>undefined\<close> otherwise, and indexing \<open>undefined\<close> throws a
  \<open>TypeError\<close>; \<open>row[x]\<close> outside the row is \<open>undefined\<close>, which arithmetic and
  comparisons treat as \<open>NaN\<close>.
\<close>

definition indexOf :: "real \<Rightarrow> nat \<Rightarrow> nat option" where
  "indexOf i n = (if i \<in> \<int> \<and> 0 \<le> i \<and> nat \<lfloor>i\<rfloor> < n then Some (nat \<lfloor>i\<rfloor>) else None)"

definition gridRow :: "number list list \<Rightarrow> real \<Rightarrow> (nat \<times> number list) option" where
  "gridRow grid y = (case indexOf y (length grid) of None \<Rightarrow> None | Some j \<Rightarrow> Some (j, grid ! j))"

definition rowCell :: "number list \<Rightarrow> real \<Rightarrow> number" where
  "rowCell row x = (case indexOf x (length row) of None \<Rightarrow> NaN | Some i \<Rightarrow> row ! i)"

text \<open>
  The body of the two loops, for the cell \<open>(x, y)\<close>. A cell that passed the depth test
  lies inside the depth grid, and the three grids have one shape, so the two writes are
  writes inside the grids.
\<close>

text \<open>The flat depth of a triangle: the mean of its three projected depths.\<close>

definition flatDepth :: "Point \<Rightarrow> Point \<Rightarrow> Point \<Rightarrow> number" where
  "flatDepth p1 p2 p3 = (scr_z p1 + scr_z p2 + scr_z p3) / Num 3"

definition rasterizeCell :: "Point \<Rightarrow> Point \<Rightarrow> Point \<Rightarrow> number
    \<Rightarrow> (Vector3 \<times> Vector3 \<times> Vector3) option \<Rightarrow> Vector3 option \<Rightarrow> real \<Rightarrow> real
    \<Rightarrow> TerminalRenderer \<Rightarrow> error + TerminalRenderer" where
  "rasterizeCell p1 p2 p3 charIndex vertexNormals lightDirection y x r =
     (if isPointInTriangle (Num x) (Num y) p1 p2 p3 then
        let depth = flatDepth p1 p2 p3;
            depthBias = Num 0.005
        in case gridRow (depthBuffer r) y of
             None \<Rightarrow> Inl TypeError
           | Some (j, depthRow) \<Rightarrow>
               if depth < rowCell depthRow x - depthBias then
                 let effIndex = effectiveIndex r p1 p2 p3 charIndex vertexNormals lightDirection
                                  (Num x) (Num y)
                 in case gridRow (prevIndexBuffer r) y of
                      None \<Rightarrow> Inl TypeError
                    | Some (j', prevRow) \<Rightarrow>
                        let prevIdx = rowCell prevRow x;
                            blendedIdx = blendedIndex prevIdx effIndex
                        in Inr (r\<lparr> indexBuffer := update2 (indexBuffer r) j (nat \<lfloor>x\<rfloor>) blendedIdx,
                                   depthBuffer := update2 (depthBuffer r) j (nat \<lfloor>x\<rfloor>) depth \<rparr>)
               else Inr r
      else Inr r)"

text \<open>
  The values a loop \<open>for (let v = lo; v <= hi; v++)\<close> takes. With a \<open>NaN\<close> bound the
  loop body never runs. \<open>rasterizeTriangle\<close> clamps \<open>lo\<close> from below by 0 and \<open>hi\<close> from
  above by the grid size, so \<open>lo\<close> is never \<open>-Infinity\<close> and \<open>hi\<close> never \<open>Infinity\<close>, the
  bounds with which such a loop would not end.
\<close>

fun loopValues :: "number \<Rightarrow> number \<Rightarrow> real list" where
  "loopValues (Num lo) (Num hi) = map (\<lambda>k. lo + real k) [0 ..< nat (\<lfloor>hi - lo\<rfloor> + 1)]"
| "loopValues lo hi = []"

fun xLoop :: "(real \<Rightarrow> TerminalRenderer \<Rightarrow> error + TerminalRenderer) \<Rightarrow> real list
    \<Rightarrow> TerminalRenderer \<Rightarrow> error + TerminalRenderer" where
  "xLoop body [] r = Inr r"
| "xLoop body (x # xs) r = (case body x r of Inl e \<Rightarrow> Inl e | Inr r' \<Rightarrow> xLoop body xs r')"

fun yLoop :: "(real \<Rightarrow> real \<Rightarrow> TerminalRenderer \<Rightarrow> error + TerminalRenderer) \<Rightarrow> real list
    \<Rightarrow> real list \<Rightarrow> TerminalRenderer \<Rightarrow> error + TerminalRenderer" where
  "yLoop body [] xs r = Inr r"
| "yLoop body (y # ys) xs r =
     (case xLoop (body y) xs r of Inl e \<Rightarrow> Inl e | Inr r' \<Rightarrow> yLoop body ys xs r')"

definition rasterizeTriangle :: "TerminalRenderer \<Rightarrow> Point \<Rightarrow> Point \<Rightarrow> Point \<Rightarrow> number
    \<Rightarrow> (Vector3 \<times> Vector3 \<times> Vector3) option \<Rightarrow> Vector3 option \<Rightarrow> error + TerminalRenderer" where
  "rasterizeTriangle r p1 p2 p3 charIndex vertexNormals lightDirection =
     (if scr_x p1 < Num 0 \<or> scr_y p1 < Num 0 \<or> scr_x p2 < Num 0 \<or> scr_y p2 < Num 0
         \<or> scr_x p3 < Num 0 \<or> scr_y p3 < Num 0
      then Inr r
      else
        let minX = Math_max (Num 0) (Math_min (Math_min (scr_x p1) (scr_x p2)) (scr_x p3));
            maxX = Math_min (Num (real (width r)) - Num 1)
                     (Math_max (Math_max (scr_x p1) (scr_x p2)) (scr_x p3));
            minY = Math_max (Num 0) (Math_min (Math_min (scr_y p1) (scr_y p2)) (scr_y p3));
            maxY = Math_min (Num (real (height r)) - Num 1)
                     (Math_max (Math_max (scr_y p1) (scr_y p2)) (scr_y p3))
        in if minX \<ge> maxX \<or> minY \<ge> maxY then Inr r
           else yLoop (rasterizeCell p1 p2 p3 charIndex vertexNormals lightDirection)
                  (loopValues minY maxY) (loopValues minX maxX) r)"

subsection \<open>drawTriangle\<close>

text \<open>The view vector of the back-face test: from the triangle's centre to the camera.\<close>

definition viewVector :: "Vector3 \<Rightarrow> Vector3 \<Rightarrow> Vector3 \<Rightarrow> number \<Rightarrow> Vector3" where
  "viewVector v1 v2 v3 cameraDistance =
     (let centerView = Vector3
            ((vec_x v1 + vec_x v2 + vec_x v3) / Num 3)
            ((vec_y v1 + vec_y v2 + vec_y v3) / Num 3)
            ((vec_z v1 + vec_z v2 + vec_z v3) / Num 3);
          cameraPos = Vector3 (Num 0) (Num 0) (- cameraDistance)
      in vec_normalize (subtract cameraPos centerView))"

definition orElse :: "Vector3 option \<Rightarrow> Vector3 \<Rightarrow> Vector3" where
  "orElse vn normal = (case vn of Some v \<Rightarrow> v | None \<Rightarrow> normal)"

definition drawTriangle :: "TerminalRenderer \<Rightarrow> Triangle \<Rightarrow> Matrix \<Rightarrow> Vector3 \<Rightarrow> number
    \<Rightarrow> error + TerminalRenderer" where
  "drawTriangle r triangle rotationMatrix lightDirection cameraDistance =
     (let v1 = applyMatrix (tri_v1 triangle) rotationMatrix;
          v2 = applyMatrix (tri_v2 triangle) rotationMatrix;
          v3 = applyMatrix (tri_v3 triangle) rotationMatrix;
          n1 = applyMatrix (orElse (tri_vn1 triangle) (tri_normal triangle)) rotationMatrix;
          n2 = applyMatrix (orElse (tri_vn2 triangle) (tri_normal triangle)) rotationMatrix;
          n3 = applyMatrix (orElse (tri_vn3 triangle) (tri_normal triangle)) rotationMatrix;
          normal = applyMatrix (tri_normal triangle) rotationMatrix
      in if dot normal (viewVector v1 v2 v3 cameraDistance) \<le> Num 0 then Inr r
         else
           let p1 = projectToScreen r v1 cameraDistance;
               p2 = projectToScreen r v2 cameraDistance;
               p3 = projectToScreen r v3 cameraDistance;
               charIndex = charIndexOf (lightIntensity normal lightDirection)
           in rasterizeTriangle r p1 p2 p3 charIndex (Some (n1, n2, n3)) (Some lightDirection))"

subsection \<open>render\<close>

text \<open>
  The character of a cell: \<open>idx >= 0 ? this.asciiChars[idx] : ' '\<close>. Indexing the ramp
  off its positions gives \<open>undefined\<close>, which \<open>join\<close> writes as nothing.
\<close>

definition glyph :: "number \<Rightarrow> string" where
  "glyph idx =
     (if idx \<ge> Num 0 then
        (case idx of
           Num k \<Rightarrow> (case indexOf k (length asciiChars) of None \<Rightarrow> [] | Some i \<Rightarrow> [asciiChars ! i])
         | _ \<Rightarrow> [])
      else '' '')"

definition renderCell :: "nat \<Rightarrow> nat \<Rightarrow> string \<times> TerminalRenderer \<Rightarrow> string \<times> TerminalRenderer" where
  "renderCell y x st =
     (case st of (line, r) \<Rightarrow>
        let idx = indexBuffer r ! y ! x
        in (line @ glyph idx, r\<lparr> prevIndexBuffer := update2 (prevIndexBuffer r) y x idx \<rparr>))"

definition renderRow :: "nat \<Rightarrow> string \<times> TerminalRenderer \<Rightarrow> string \<times> TerminalRenderer" where
  "renderRow y st =
     (case st of (output, r) \<Rightarrow>
        case fold (renderCell y) [0 ..< width r] ([], r) of
          (line, r') \<Rightarrow> (output @ line @ [CHR 0x0A], r'))"

definition render :: "TerminalRenderer \<Rightarrow> string \<times> TerminalRenderer" where
  "render r = fold renderRow [0 ..< height r] ([], r)"

subsection \<open>One frame\<close>

text \<open>
  The frame of \<open>tick\<close>: clear, draw every triangle in mesh order, render. An exception
  ends the frame.
\<close>

fun drawAll :: "Triangle list \<Rightarrow> Matrix \<Rightarrow> Vector3 \<Rightarrow> number \<Rightarrow> TerminalRenderer
    \<Rightarrow> error + TerminalRenderer" where
  "drawAll [] rotationMatrix lightDirection cameraDistance r = Inr r"
| "drawAll (t # ts) rotationMatrix lightDirection cameraDistance r =
     (case drawTriangle r t rotationMatrix lightDirection cameraDistance of
        Inl e \<Rightarrow> Inl e
      | Inr r' \<Rightarrow> drawAll ts rotationMatrix lightDirection cameraDistance r')"

definition frame :: "Triangle list \<Rightarrow> Matrix \<Rightarrow> Vector3 \<Rightarrow> number \<Rightarrow> TerminalRenderer
    \<Rightarrow> error + string \<times> TerminalRenderer" where
  "frame triangles rotationMatrix lightDirection cameraDistance r =
     (case drawAll triangles rotationMatrix lightDirection cameraDistance (clear r) of
        Inl e \<Rightarrow> Inl e
      | Inr r' \<Rightarrow> Inr (render r'))"

section \<open>Notions of the specification\<close>

text \<open>
  The specification's \<open>clamp(lo, v, hi)\<close>, its truncation of a number to an integer, and
  the brightness it states: \<open>clamp(0.25, 0.35 + 0.7 * max(0, n \<cdot> L)^1.2, 1.0)\<close>.
\<close>

definition clamp :: "number \<Rightarrow> number \<Rightarrow> number \<Rightarrow> number" where
  "clamp lo v hi = (if v < lo then lo else if hi < v then hi else v)"

fun truncation :: "number \<Rightarrow> number" where
  "truncation (Num q) = Num (of_int (trunc_real q))"
| "truncation a = a"

definition claimed_brightness :: "Vector3 \<Rightarrow> Vector3 \<Rightarrow> number" where
  "claimed_brightness n L =
     clamp (Num 0.25) (Num 0.35 + Num 0.7 * Math_pow (Math_max (Num 0) (dot n L)) (Num 1.2)) (Num 1)"

text \<open>
  The index grids' invariant of claim C9: an entry is the empty sentinel -1 or an integer
  from 3 to 9. \<open>litIndex\<close> is the second case alone.
\<close>

definition litIndex :: "number \<Rightarrow> bool" where
  "litIndex v = (case v of Num q \<Rightarrow> q \<in> \<int> \<and> 3 \<le> q \<and> q \<le> 9 | _ \<Rightarrow> False)"

definition validIndex :: "number \<Rightarrow> bool" where
  "validIndex v = (v = Num (- 1) \<or> litIndex v)"

definition gridValid :: "number list list \<Rightarrow> bool" where
  "gridValid grid = list_all (list_all validIndex) grid"

definition frameInvariant :: "TerminalRenderer \<Rightarrow> bool" where
  "frameInvariant r = (gridValid (indexBuffer r) \<and> gridValid (prevIndexBuffer r))"

text \<open>The shape the constructor gives the grids: \<open>height\<close> rows of \<open>width\<close> cells.\<close>

definition hasShape :: "nat \<Rightarrow> nat \<Rightarrow> 'a list list \<Rightarrow> bool" where
  "hasShape h w grid = (length grid = h \<and> list_all (\<lambda>row. length row = w) grid)"

definition wellFormed :: "TerminalRenderer \<Rightarrow> bool" where
  "wellFormed r = (hasShape (height r) (width r) (indexBuffer r)
     \<and> hasShape (height r) (width r) (prevIndexBuffer r)
     \<and> hasShape (height r) (width r) (depthBuffer r))"

text \<open>Vectors and matrices of finite numbers (no \<open>NaN\<close>, no infinity).\<close>

definition finiteVector :: "Vector3 \<Rightarrow> bool" where
  "finiteVector v = (isFinite (vec_x v) \<and> isFinite (vec_y v) \<and> isFinite (vec_z v))"

fun finiteMatrix :: "Matrix \<Rightarrow> bool" where
  "finiteMatrix ((m00, m01, m02), (m10, m11, m12), (m20, m21, m22)) =
     (isFinite m00 \<and> isFinite m01 \<and> isFinite m02 \<and> isFinite m10 \<and> isFinite m11 \<and> isFinite m12
      \<and> isFinite m20 \<and> isFinite m21 \<and> isFinite m22)"

definition finiteNormals :: "Triangle \<Rightarrow> bool" where
  "finiteNormals t = (finiteVector (tri_normal t)
     \<and> finiteVector (orElse (tri_vn1 t) (tri_normal t))
     \<and> finiteVector (orElse (tri_vn2 t) (tri_normal t))
     \<and> finiteVector (orElse (tri_vn3 t) (tri_normal t)))"

text \<open>
  Numbers, vectors and matrices of finite numbers of magnitude at most \<open>10^60\<close>. The
  products and sums that \<open>applyMatrix\<close>, \<open>dot\<close>, \<open>normalize\<close> and the view vector form
  from such numbers are below \<open>10^250\<close> in magnitude, inside the range of doubles.
\<close>

definition withinRange :: "number \<Rightarrow> bool" where
  "withinRange a = (case a of Num r \<Rightarrow> \<bar>r\<bar> \<le> 10 ^ 60 | _ \<Rightarrow> False)"

definition boundedVector :: "Vector3 \<Rightarrow> bool" where
  "boundedVector v = (withinRange (vec_x v) \<and> withinRange (vec_y v) \<and> withinRange (vec_z v))"

fun boundedMatrix :: "Matrix \<Rightarrow> bool" where
  "boundedMatrix ((m00, m01, m02), (m10, m11, m12), (m20, m21, m22)) =
     (withinRange m00 \<and> withinRange m01 \<and> withinRange m02 \<and> withinRange m10 \<and> withinRange m11
      \<and> withinRange m12 \<and> withinRange m20 \<and> withinRange m21 \<and> withinRange m22)"

definition boundedNormals :: "Triangle \<Rightarrow> bool" where
  "boundedNormals t = (boundedVector (tri_normal t)
     \<and> boundedVector (orElse (tri_vn1 t) (tri_normal t))
     \<and> boundedVector (orElse (tri_vn2 t) (tri_normal t))
     \<and> boundedVector (orElse (tri_vn3 t) (tri_normal t)))"

text \<open>
  Points of real space as vectors of the program, and the degenerate triangles: three
  points on one line (coincident points included), that is, with linearly dependent edges.
\<close>

type_synonym real3 = "real \<times> real \<times> real"

fun point :: "real3 \<Rightarrow> Vector3" where
  "point (a, b, c) = Vector3 (Num a) (Num b) (Num c)"

declare point.simps [simp del]

fun degenerate :: "real3 \<Rightarrow> real3 \<Rightarrow> real3 \<Rightarrow> bool" where
  "degenerate (a1, a2, a3) (b1, b2, b3) (c1, c2, c3) =
     (\<exists>s t. (s \<noteq> 0 \<or> t \<noteq> 0)
        \<and> s * (b1 - a1) + t * (c1 - a1) = 0
        \<and> s * (b2 - a2) + t * (c2 - a2) = 0
        \<and> s * (b3 - a3) + t * (c3 - a3) = 0)"

text \<open>
  Points with integer coordinates of magnitude at most \<open>2^20\<close>. The differences and
  products that the cross product of two edges between such points takes are integers
  below \<open>2^53\<close>, which doubles hold exactly.
\<close>

fun gridPoint :: "real3 \<Rightarrow> bool" where
  "gridPoint (a, b, c) =
     (a \<in> \<int> \<and> b \<in> \<int> \<and> c \<in> \<int> \<and> \<bar>a\<bar> \<le> 2 ^ 20 \<and> \<bar>b\<bar> \<le> 2 ^ 20 \<and> \<bar>c\<bar> \<le> 2 ^ 20)"

text \<open>
  The standard rotation matrices about the three axes, the matrix product, and an angle
  reduced modulo a full turn (the remainder of the division truncated towards zero).
\<close>

definition rotX :: "real \<Rightarrow> Matrix" where
  "rotX a = ((Num 1, Num 0, Num 0), (Num 0, Num (cos a), Num (- sin a)), (Num 0, Num (sin a), Num (cos a)))"

definition rotY :: "real \<Rightarrow> Matrix" where
  "rotY a = ((Num (cos a), Num 0, Num (sin a)), (Num 0, Num 1, Num 0), (Num (- sin a), Num 0, Num (cos a)))"

definition rotZ :: "real \<Rightarrow> Matrix" where
  "rotZ a = ((Num (cos a), Num (- sin a), Num 0), (Num (sin a), Num (cos a), Num 0), (Num 0, Num 0, Num 1))"

fun matMul :: "Matrix \<Rightarrow> Matrix \<Rightarrow> Matrix" where
  "matMul ((a00, a01, a02), (a10, a11, a12), (a20, a21, a22))
          ((b00, b01, b02), (b10, b11, b12), (b20, b21, b22)) =
     ((a00 * b00 + a01 * b10 + a02 * b20, a00 * b01 + a01 * b11 + a02 * b21,
       a00 * b02 + a01 * b12 + a02 * b22),
      (a10 * b00 + a11 * b10 + a12 * b20, a10 * b01 + a11 * b11 + a12 * b21,
       a10 * b02 + a11 * b12 + a12 * b22),
      (a20 * b00 + a21 * b10 + a22 * b20, a20 * b01 + a21 * b11 + a22 * b21,
       a20 * b02 + a21 * b12 + a22 * b22))"

definition reducedAngle :: "real \<Rightarrow> real" where
  "reducedAngle a = a - 2 * pi * of_int (trunc_real (a / (2 * pi)))"

section \<open>Sample inputs\<close>

text \<open>
  \<open>data.toString()\<close> on a buffer whose bytes are all below 128: each byte is one code
  unit. The sample files below are such buffers.
\<close>

definition toString_ascii :: "byte list \<Rightarrow> jsstring" where
  "toString_ascii bs = map unat bs"

definition bytes_of :: "jsstring \<Rightarrow> byte list" where
  "bytes_of s = map of_nat s"

definition unlines :: "string list \<Rightarrow> jsstring" where
  "unlines ls = concat (map (\<lambda>l. str l @ [10]) ls)"

text \<open>A binary file cut in the middle of its only record: 80 + 4 + 25 bytes.\<close>

definition truncated_binary :: "byte list" where
  "truncated_binary = replicate 80 0 @ [1, 0, 0, 0] @ replicate 25 0"

text \<open>A facet with two vertex lines only.\<close>

definition missing_vertex_text :: jsstring where
  "missing_vertex_text = unlines
     [''facet normal 0 0 1'', ''outer loop'', ''vertex 0 0 0'', ''vertex 1 0 0'',
      ''endloop'', ''endfacet'']"

text \<open>A facet whose normal has the token \<open>x\<close> where a number is expected.\<close>

definition malformed_token_text :: jsstring where
  "malformed_token_text = unlines
     [''facet normal 0 0 x'', ''outer loop'', ''vertex 0 0 0'', ''vertex 1 0 0'',
      ''vertex 0 1 0'', ''endloop'']"

text \<open>A file that ends after the first vertex line of a facet.\<close>

definition cut_off_text :: jsstring where
  "cut_off_text = unlines [''facet normal 0 0 1'', ''outer loop'', ''vertex 0 0 0'']"

text \<open>
  Renderers of two columns and two rows with per-pixel lighting, as \<open>main\<close> switches it
  on: with given grids, and as the constructor returns it.
\<close>

definition grid2 :: "number list list \<Rightarrow> number list list \<Rightarrow> number list list \<Rightarrow> TerminalRenderer" where
  "grid2 idx prev depth =
     \<lparr> width = 2, height = 2, usePerPixelLighting = True,
       buffer = replicate 2 (replicate 2 (CHR '' '')),
       indexBuffer = idx, prevIndexBuffer = prev, depthBuffer = depth \<rparr>"

definition smallRenderer :: TerminalRenderer where
  "smallRenderer = new_TerminalRenderer 2 2 True"

text \<open>The rotation by the angles 0, 0, 0 written out, and a camera distance.\<close>

definition identityMatrix :: Matrix where
  "identityMatrix = ((Num 1, Num 0, Num 0), (Num 0, Num 1, Num 0), (Num 0, Num 0, Num 1))"

definition sampleDistance :: number where
  "sampleDistance = Num 3"

text \<open>
  Triangles whose three vertices project, in such a renderer at \<open>sampleDistance\<close>, to the
  cells (0, 0), (1, 0) and (0, 1): at depth \<open>z\<close>, with the face normal \<open>n\<close> from the file.
  The projected points are \<open>cornerA z\<close>, \<open>cornerB z\<close> and \<open>cornerC z\<close>.
\<close>

definition cornerTriangle :: "real \<Rightarrow> Vector3 \<Rightarrow> Triangle" where
  "cornerTriangle z n = new_Triangle (point (- 2, 1, z)) (point (0, 1, z)) (point (- 2, 0, z)) (Some n)"

definition cornerA :: "real \<Rightarrow> Point" where
  "cornerA z = Point (Num 0) (Num 0) (Num z)"

definition cornerB :: "real \<Rightarrow> Point" where
  "cornerB z = Point (Num 1) (Num 0) (Num z)"

definition cornerC :: "real \<Rightarrow> Point" where
  "cornerC z = Point (Num 0) (Num 1) (Num z)"

text \<open>
  Sample triangles over these cells: one that faces the camera at depth 0, one at the
  depth -0.003 in front of it, one that faces away from the camera, and one whose normal
  has the component \<open>NaN\<close> that \<open>parseFloat\<close> returns for a token that is no number.
\<close>

definition nearDepth :: real where
  "nearDepth = - 0.003"

definition facingTriangle :: Triangle where
  "facingTriangle = cornerTriangle 0 (point (0, 0, - 1))"

definition nearTriangle :: Triangle where
  "nearTriangle = cornerTriangle nearDepth (point (1, 0, 0))"

definition awayTriangle :: Triangle where
  "awayTriangle = cornerTriangle 0 (point (0, 0, 1))"

definition nanTriangle :: Triangle where
  "nanTriangle = cornerTriangle 0 (Vector3 NaN (Num 0) (Num (- 1)))"

text \<open>
  Light directions on the horizontal ring that the keys select: the one at the angle 0,
  and the one at three quarters of a turn.
\<close>

definition lightRight :: Vector3 where
  "lightRight = point (1, 0, 0)"

definition lightFront :: Vector3 where
  "lightFront = point (0, 0, - 1)"

text \<open>A triangle with its three vertices on one line, its normal computed.\<close>

definition flatTriangle :: Triangle where
  "flatTriangle = new_Triangle (point (0, 0, 0)) (point (1, 0, 0)) (point (2, 0, 0)) None"

text \<open>
  A triangle one of whose vertices has the coordinate \<open>Infinity\<close>, a value that
  \<open>parseFloat\<close> and the binary reader return; its normal is computed.
\<close>

definition farTriangle :: Triangle where
  "farTriangle = new_Triangle (point (0, 0, 0)) (Vector3 Infinity (Num 0) (Num 0)) (point (0, 1, 0)) None"


section \<open>Arithmetic of numbers\<close>

lemma Num_minus [simp]: "Num a - Num b = Num (a - b)"
  by (simp add: minus_number_def)

lemma Infinity_minus_Num [simp]: "Infinity - Num b = Infinity" "NegInfinity - Num b = NegInfinity"
  by (simp_all add: minus_number_def)

lemma Num_le [simp]: "(Num a \<le> Num b) = (a \<le> b)"
  by (auto simp: less_eq_number_def)

lemma NaN_le [simp]: "\<not> NaN \<le> b" "\<not> a \<le> NaN"
  by (cases b; simp add: less_eq_number_def) (cases a; simp add: less_eq_number_def)

lemma NaN_less [simp]: "\<not> a < NaN"
  by (cases a) simp_all

lemma NaN_arith [simp]:
  "a + NaN = NaN" "a * NaN = NaN" "a / NaN = NaN" "a - NaN = NaN" "NaN - a = NaN"
  by (cases a; simp add: minus_number_def)+

lemma number_add_commute: "(a :: number) + b = b + a"
  by (cases a; cases b) simp_all

lemma number_mult_commute: "(a :: number) * b = b * a"
  by (cases a; cases b) (simp_all add: mult.commute)

lemma Math_max_Num [simp]: "Math_max (Num a) (Num b) = Num (max a b)"
  by (simp add: Math_max_def max_def)

lemma Math_min_Num [simp]: "Math_min (Num a) (Num b) = Num (min a b)"
  by (simp add: Math_min_def min_def)

lemma Math_max_NaN [simp]: "Math_max NaN b = NaN" "Math_max a NaN = NaN"
  by (simp_all add: Math_max_def)

lemma Math_min_NaN [simp]: "Math_min NaN b = NaN" "Math_min a NaN = NaN"
  by (simp_all add: Math_min_def)

section \<open>Properties of the loader\<close>

lemma split_ws_Nil: "split_ws [] = [[]]"
  by (simp add: split_ws.simps [of "[]"])

lemma split_ws_Cons:
  "split_ws (c # cs) =
     (if isWhiteSpace c then [] # split_ws (dropWhile isWhiteSpace cs)
      else (case split_ws cs of t # ts \<Rightarrow> (c # t) # ts | [] \<Rightarrow> [[c]]))"
  by (subst split_ws.simps, subst (3) split_ws.simps) (simp add: Let_def)

lemma readVector3_ok:
  "off + 12 \<le> length bs \<Longrightarrow> \<exists>v. readVector3 bs off = Inr v"
  by (simp add: readVector3_def readFloatLE_def)

lemma parseBinaryLoop_ok:
  "off + 50 * n \<le> length bs \<Longrightarrow> \<exists>ts. parseBinaryLoop n bs off acc = Inr ts"
proof (induction n arbitrary: off acc)
  case 0
  then show ?case by simp
next
  case (Suc n)
  from Suc.prems obtain normal v1 v2 v3 where r:
    "readVector3 bs off = Inr normal" "readVector3 bs (off + 12) = Inr v1"
    "readVector3 bs (off + 24) = Inr v2" "readVector3 bs (off + 36) = Inr v3"
    using readVector3_ok [of off bs] readVector3_ok [of "off + 12" bs]
      readVector3_ok [of "off + 24" bs] readVector3_ok [of "off + 36" bs]
    by auto
  have "off + 50 + 50 * n \<le> length bs" using Suc.prems by simp
  from Suc.IH [OF this] show ?case by (simp add: r)
qed

lemma parseBinarySTL_ok:
  assumes "84 < length data" and "length data = 80 + 4 + le32 data 80 * 50"
  shows "\<exists>ts. parseBinarySTL data = Inr ts"
proof -
  have "84 + 50 * le32 data 80 \<le> length data" using assms by simp
  from parseBinaryLoop_ok [OF this] show ?thesis
    using assms by (simp add: parseBinarySTL_def readUInt32LE_def)
qed

lemma vertexLoop_Inl:
  "vertexLoop pf n lines i acc = Inl e \<Longrightarrow> e = TypeError \<and> length lines < i + n"
proof (induction n arbitrary: i acc)
  case 0
  then show ?case by simp
next
  case (Suc n)
  show ?case
  proof (cases "i < length lines")
    case True
    with Suc.prems have "vertexLoop pf n lines (i + 1)
        (acc @ [Vector3 (pf (part (split_ws (lines ! i)) 1)) (pf (part (split_ws (lines ! i)) 2))
                        (pf (part (split_ws (lines ! i)) 3))]) = Inl e"
      by (simp add: Let_def)
    from Suc.IH [OF this] show ?thesis by simp
  next
    case False
    with Suc.prems show ?thesis by simp
  qed
qed

lemma parseAsciiLoop_Inl:
  "parseAsciiLoop pf lines i acc = Inl e \<Longrightarrow>
     e = TypeError \<and>
     (\<exists>j<length lines. startsWith (lines ! j) (str ''facet normal'') \<and> length lines \<le> j + 4)"
proof (induction pf lines i acc rule: parseAsciiLoop.induct)
  case (1 pf lines i triangles)
  show ?case
  proof (cases "i < length lines")
    case False
    with "1.prems" show ?thesis by (simp add: parseAsciiLoop.simps)
  next
    case inb: True
    show ?thesis
    proof (cases "startsWith (lines ! i) (str ''facet normal'')")
      case False
      with inb "1.prems" have "parseAsciiLoop pf lines (i + 1) triangles = Inl e"
        by (subst (asm) parseAsciiLoop.simps) simp
      with "1.IH"(2) inb False show ?thesis by simp
    next
      case facet: True
      show ?thesis
      proof (cases "vertexLoop pf 3 lines (i + 2) []")
        case (Inl e')
        with inb facet "1.prems" have "e' = e"
          by (subst (asm) parseAsciiLoop.simps) (simp add: Let_def)
        with Inl vertexLoop_Inl [of pf 3 lines "i + 2" "[]" e]
        have "e = TypeError" "length lines \<le> i + 4" by auto
        with inb facet show ?thesis by blast
      next
        case (Inr r)
        obtain vertices i' where r: "r = (vertices, i')" by (cases r)
        let ?n = "Vector3 (pf (part (split_ws (lines ! i)) 2)) (pf (part (split_ws (lines ! i)) 3))
                          (pf (part (split_ws (lines ! i)) 4))"
        from inb facet "1.prems" Inr r
        have "parseAsciiLoop pf lines (i + 7)
                (triangles @ [new_Triangle (vertices ! 0) (vertices ! 1) (vertices ! 2) (Some ?n)])
              = Inl e"
          by (subst (asm) parseAsciiLoop.simps) (simp add: Let_def)
        with "1.IH"(1) [OF inb refl facet refl refl Inr r [symmetric]] show ?thesis
          by simp
      qed
    qed
  qed
qed

lemma toString_ascii_bytes_of:
  "\<forall>c\<in>set s. c < 256 \<Longrightarrow> toString_ascii (bytes_of s) = s"
  by (induction s) (simp_all add: toString_ascii_def bytes_of_def unat_of_nat)

lemma split_lines_no_lf: "10 \<notin> set s \<Longrightarrow> split_lines s = [s]"
  by (induction s) auto

lemma dropWhile_hd_id: "xs \<noteq> [] \<Longrightarrow> \<not> P (hd xs) \<Longrightarrow> dropWhile P xs = xs"
  by (cases xs) auto

lemma trim_id:
  assumes "s \<noteq> []" "\<not> isWhiteSpace (hd s)" "\<not> isWhiteSpace (last s)"
  shows "trim s = s"
proof -
  have 1: "dropWhile isWhiteSpace s = s" using assms by (simp add: dropWhile_hd_id)
  have "dropWhile isWhiteSpace (rev s) = rev s"
    using assms by (intro dropWhile_hd_id) (simp_all add: hd_rev)
  with 1 show ?thesis by (simp add: trim_def)
qed

lemma lines_truncated_binary:
  "map trim (split_lines (toString_ascii truncated_binary)) = [toString_ascii truncated_binary]"
proof -
  have a: "toString_ascii truncated_binary = replicate 80 0 @ [1, 0, 0, 0] @ replicate 25 0"
    by (simp add: toString_ascii_def truncated_binary_def)
  have "10 \<notin> set (toString_ascii truncated_binary)" unfolding a by auto
  then have "split_lines (toString_ascii truncated_binary) = [toString_ascii truncated_binary]"
    by (rule split_lines_no_lf)
  moreover have "trim (toString_ascii truncated_binary) = toString_ascii truncated_binary"
    by (rule trim_id) (simp_all add: a isWhiteSpace_def hd_append)
  ultimately show ?thesis by simp
qed

lemma startsWith_hd: "startsWith s p \<Longrightarrow> p \<noteq> [] \<Longrightarrow> hd s = hd p"
  unfolding startsWith_def by (metis hd_take length_greater_0_conv)

lemma no_facet_truncated_binary:
  "\<not> startsWith (toString_ascii truncated_binary) (str ''facet normal'')"
proof
  assume "startsWith (toString_ascii truncated_binary) (str ''facet normal'')"
  then have "hd (toString_ascii truncated_binary) = hd (str ''facet normal'')"
    by (rule startsWith_hd) (simp add: str_def)
  then show False
    by (simp add: toString_ascii_def truncated_binary_def str_def hd_append)
qed

lemma parse_truncated_binary: "parseSTL toString_ascii pf truncated_binary = Inr []"
proof -
  have "parseSTL toString_ascii pf truncated_binary = parseAsciiSTL pf (toString_ascii truncated_binary)"
    by (simp add: parseSTL_def readUInt32LE_def le32_def truncated_binary_def nth_append)
  also have "\<dots> = Inr []"
    unfolding parseAsciiSTL_def lines_truncated_binary Let_def
    by (subst parseAsciiLoop.simps, subst parseAsciiLoop.simps) (simp add: no_facet_truncated_binary)
  finally show ?thesis .
qed

lemma parse_empty: "parseSTL toString_ascii pf [] = Inr []"
  unfolding parseSTL_def parseAsciiSTL_def
  by (subst parseAsciiLoop.simps, subst parseAsciiLoop.simps)
     (simp add: toString_ascii_def trim_def startsWith_def str_def)

lemma lines_missing_vertex:
  "map trim (split_lines missing_vertex_text) =
     [str ''facet normal 0 0 1'', str ''outer loop'', str ''vertex 0 0 0'', str ''vertex 1 0 0'',
      str ''endloop'', str ''endfacet'', []]"
  by (simp add: missing_vertex_text_def unlines_def str_def trim_def isWhiteSpace_def)

lemma lines_malformed_token:
  "map trim (split_lines malformed_token_text) =
     [str ''facet normal 0 0 x'', str ''outer loop'', str ''vertex 0 0 0'', str ''vertex 1 0 0'',
      str ''vertex 0 1 0'', str ''endloop'', []]"
  by (simp add: malformed_token_text_def unlines_def str_def trim_def isWhiteSpace_def)

lemma lines_cut_off:
  "map trim (split_lines cut_off_text) =
     [str ''facet normal 0 0 1'', str ''outer loop'', str ''vertex 0 0 0'', []]"
  by (simp add: cut_off_text_def unlines_def str_def trim_def isWhiteSpace_def)

lemma split_ws_samples:
  "split_ws (str ''facet normal 0 0 1'') = [str ''facet'', str ''normal'', str ''0'', str ''0'', str ''1'']"
  "split_ws (str ''facet normal 0 0 x'') = [str ''facet'', str ''normal'', str ''0'', str ''0'', str ''x'']"
  "split_ws (str ''vertex 0 0 0'') = [str ''vertex'', str ''0'', str ''0'', str ''0'']"
  "split_ws (str ''vertex 1 0 0'') = [str ''vertex'', str ''1'', str ''0'', str ''0'']"
  "split_ws (str ''vertex 0 1 0'') = [str ''vertex'', str ''0'', str ''1'', str ''0'']"
  "split_ws (str ''endloop'') = [str ''endloop'']"
  by (simp_all add: str_def split_ws_Nil split_ws_Cons isWhiteSpace_def)

lemma startsWith_samples:
  "startsWith (str ''facet normal 0 0 1'') (str ''facet normal'')"
  "startsWith (str ''facet normal 0 0 x'') (str ''facet normal'')"
  by (simp_all add: startsWith_def str_def)

lemma parse_missing_vertex:
  "parseAsciiSTL pf missing_vertex_text =
     Inr [new_Triangle (Vector3 (pf (str ''0'')) (pf (str ''0'')) (pf (str ''0'')))
            (Vector3 (pf (str ''1'')) (pf (str ''0'')) (pf (str ''0'')))
            (Vector3 (pf (str ''undefined'')) (pf (str ''undefined'')) (pf (str ''undefined'')))
            (Some (Vector3 (pf (str ''0'')) (pf (str ''0'')) (pf (str ''1''))))]"
  unfolding parseAsciiSTL_def lines_missing_vertex Let_def
  by (subst parseAsciiLoop.simps, subst parseAsciiLoop.simps)
     (simp add: startsWith_samples split_ws_samples part_def eval_nat_numeral)

lemma parse_malformed_token:
  "parseAsciiSTL pf malformed_token_text =
     Inr [new_Triangle (Vector3 (pf (str ''0'')) (pf (str ''0'')) (pf (str ''0'')))
            (Vector3 (pf (str ''1'')) (pf (str ''0'')) (pf (str ''0'')))
            (Vector3 (pf (str ''0'')) (pf (str ''1'')) (pf (str ''0'')))
            (Some (Vector3 (pf (str ''0'')) (pf (str ''0'')) (pf (str ''x''))))]"
  unfolding parseAsciiSTL_def lines_malformed_token Let_def
  by (subst parseAsciiLoop.simps, subst parseAsciiLoop.simps)
     (simp add: startsWith_samples split_ws_samples part_def eval_nat_numeral)

lemma parse_cut_off: "parseAsciiSTL pf cut_off_text = Inl TypeError"
  unfolding parseAsciiSTL_def lines_cut_off Let_def
  by (subst parseAsciiLoop.simps) (simp add: startsWith_samples eval_nat_numeral)

lemma sample_lengths:
  "length missing_vertex_text = 73" "length malformed_token_text = 77" "length cut_off_text = 43"
  by (simp_all add: missing_vertex_text_def malformed_token_text_def cut_off_text_def unlines_def str_def)

lemma sample_ascii:
  "\<forall>c\<in>set missing_vertex_text. c < 256" "\<forall>c\<in>set malformed_token_text. c < 256"
  "\<forall>c\<in>set cut_off_text. c < 256"
  by (simp_all add: missing_vertex_text_def malformed_token_text_def cut_off_text_def unlines_def str_def)

lemma parseSTL_short_text:
  "length s \<le> 84 \<Longrightarrow> \<forall>c\<in>set s. c < 256 \<Longrightarrow>
     parseSTL toString_ascii pf (bytes_of s) = parseAsciiSTL pf s"
  by (simp add: parseSTL_def toString_ascii_bytes_of) (simp add: bytes_of_def)

lemma parseSTL_branches:
  "parseSTL toString pf data =
     (if 84 < length data \<and> length data = 80 + 4 + 50 * le32 data 80
      then parseBinarySTL data
      else parseAsciiSTL pf (toString data))"
  by (simp add: parseSTL_def readUInt32LE_def mult.commute)

text \<open>
  C2. The loader parses its input as binary STL exactly when the input is longer than 84
  bytes and its length is 80 + 4 + 50 * N, for N the unsigned 32-bit little-endian integer
  at byte offset 80; in every other case, lengths up to 84 included, it parses the decoded
  text.
\<close>

theorem parseSTL_detection:
  "parseSTL toString pf data =
     (if 84 < length data \<and> length data = 80 + 4 + 50 * le32 data 80
      then parseBinarySTL data
      else parseAsciiSTL pf (toString data))"
  by (rule parseSTL_branches)

text \<open>
  C1, as the claim states it, fails. A zero-length file and a binary file cut in the middle
  of a record load without an error, as an empty mesh; a text file with a missing vertex line
  and a text file with a malformed numeric token load without an error and give a triangle,
  whose coordinates are whatever \<open>parseFloat\<close> returns for the tokens it is handed (for
  the missing line, for \<open>undefined\<close>).
\<close>

theorem loader_accepts_malformed_input:
  "\<forall>pf. parseSTL toString_ascii pf [] = Inr []
     \<and> parseSTL toString_ascii pf truncated_binary = Inr []
     \<and> parseSTL toString_ascii pf (bytes_of missing_vertex_text) =
         Inr [new_Triangle (Vector3 (pf (str ''0'')) (pf (str ''0'')) (pf (str ''0'')))
            (Vector3 (pf (str ''1'')) (pf (str ''0'')) (pf (str ''0'')))
            (Vector3 (pf (str ''undefined'')) (pf (str ''undefined'')) (pf (str ''undefined'')))
            (Some (Vector3 (pf (str ''0'')) (pf (str ''0'')) (pf (str ''1''))))]
     \<and> parseSTL toString_ascii pf (bytes_of malformed_token_text) =
         Inr [new_Triangle (Vector3 (pf (str ''0'')) (pf (str ''0'')) (pf (str ''0'')))
            (Vector3 (pf (str ''1'')) (pf (str ''0'')) (pf (str ''0'')))
            (Vector3 (pf (str ''0'')) (pf (str ''1'')) (pf (str ''0'')))
            (Some (Vector3 (pf (str ''0'')) (pf (str ''0'')) (pf (str ''x''))))]"
  by (simp add: parse_empty parse_truncated_binary parseSTL_short_text sample_lengths sample_ascii
      parse_missing_vertex parse_malformed_token)

text \<open>
  C1, amended. Loading fails only with the \<open>TypeError\<close> of the text parser, and only when
  some line that starts with \<open>facet normal\<close> (after trimming) has fewer than four lines
  after it: the parser then reads a vertex line past the end of the file.
\<close>

theorem parseSTL_fails_only_at_cut_off_facet:
  assumes "parseSTL toString pf data = Inl e"
  shows "e = TypeError \<and>
     (\<exists>j<length (map trim (split_lines (toString data))).
        startsWith (map trim (split_lines (toString data)) ! j) (str ''facet normal'')
        \<and> length (map trim (split_lines (toString data))) \<le> j + 4)"
proof (cases "84 < length data \<and> length data = 80 + 4 + 50 * le32 data 80")
  case True
  then have "\<exists>ts. parseBinarySTL data = Inr ts"
    using parseBinarySTL_ok [of data] by (simp add: mult.commute)
  with True assms show ?thesis by (auto simp: parseSTL_branches)
next
  case False
  with assms have "parseAsciiLoop pf (map trim (split_lines (toString data))) 0 [] = Inl e"
    by (auto simp: parseSTL_branches parseAsciiSTL_def Let_def split: if_splits)
  from parseAsciiLoop_Inl [OF this] show ?thesis .
qed

theorem parseSTL_fails_only_at_cut_off_facet_witness:
  "\<forall>pf. parseSTL toString_ascii pf (bytes_of cut_off_text) = Inl TypeError
     \<and> (\<exists>j<length (map trim (split_lines (toString_ascii (bytes_of cut_off_text)))).
        startsWith (map trim (split_lines (toString_ascii (bytes_of cut_off_text))) ! j) (str ''facet normal'')
        \<and> length (map trim (split_lines (toString_ascii (bytes_of cut_off_text)))) \<le> j + 4)"
proof
  fix pf
  have h: "parseSTL toString_ascii pf (bytes_of cut_off_text) = Inl TypeError"
    by (simp add: parseSTL_short_text sample_lengths sample_ascii parse_cut_off)
  from parseSTL_fails_only_at_cut_off_facet [OF h] h
  show "parseSTL toString_ascii pf (bytes_of cut_off_text) = Inl TypeError
     \<and> (\<exists>j<length (map trim (split_lines (toString_ascii (bytes_of cut_off_text)))).
        startsWith (map trim (split_lines (toString_ascii (bytes_of cut_off_text))) ! j) (str ''facet normal'')
        \<and> length (map trim (split_lines (toString_ascii (bytes_of cut_off_text)))) \<le> j + 4)"
    by simp
qed

section \<open>Properties of the lighting\<close>

lemma ramp_max_index: "Num (real (length asciiChars)) - Num 1 = Num 9"
  by (simp add: asciiChars_def)

lemma min_max_is_clamp: "Math_min (Num 1) (Math_max (Num 0.25) v) = clamp (Num 0.25) v (Num 1)"
  by (cases v) (auto simp: clamp_def Math_max_def Math_min_def)

lemma clamp_cases:
  "(case clamp (Num 0.25) v (Num 1) of
      NaN \<Rightarrow> True | Num c \<Rightarrow> 0.25 \<le> c \<and> c \<le> 1 | _ \<Rightarrow> False)"
  by (cases v) (auto simp: clamp_def)

lemma floor_is_truncation:
  "Math_floor (clamp (Num 0.25) v (Num 1) * Num 9) = truncation (clamp (Num 0.25) v (Num 1) * Num 9)"
  using clamp_cases [of v]
  by (cases "clamp (Num 0.25) v (Num 1)") (auto simp: trunc_real_def)

lemma lightIntensity_claimed: "lightIntensity n L = claimed_brightness n L"
  unfolding lightIntensity_def claimed_brightness_def Let_def min_max_is_clamp
  by (simp only: number_add_commute [of "Num 0.35"] number_mult_commute [of "Num 0.7"])

lemma perPixelIntensity_claimed: "perPixelIntensity n L = claimed_brightness n L"
  unfolding perPixelIntensity_def claimed_brightness_def Let_def min_max_is_clamp
  by (simp only: number_mult_commute [of "Num 0.7"])

lemma charIndexOf_claimed:
  "charIndexOf (claimed_brightness n L) = truncation (claimed_brightness n L * Num 9)"
  unfolding charIndexOf_def ramp_max_index claimed_brightness_def
  by (rule floor_is_truncation)

text \<open>
  C3. The flat brightness of a triangle with transformed face normal \<open>n\<close> under the light
  direction \<open>L\<close> is \<open>clamp(0.25, 0.35 + 0.7 * max(0, n \<cdot> L)^1.2, 1.0)\<close>, and the index of
  a covered cell before the temporal blend is the truncation of the brightness times 9,
  the last index of the ten-character ramp: the flat brightness when the flat index is
  used, and the same brightness formula at the interpolated normal when per-pixel lighting
  is on.
\<close>

theorem brightness_and_index:
  "lightIntensity n L = claimed_brightness n L
   \<and> charIndexOf (lightIntensity n L) = truncation (claimed_brightness n L * Num 9)
   \<and> effectiveIndex r p1 p2 p3 (charIndexOf (lightIntensity n L)) vns (Some L) x y =
       truncation (claimed_brightness
          (case (usePerPixelLighting r, vns) of
             (True, Some v) \<Rightarrow> interpolatedNormal p1 p2 p3 v x y
           | _ \<Rightarrow> n) L * Num 9)"
  by (cases "usePerPixelLighting r"; cases vns)
     (simp_all only: lightIntensity_claimed perPixelIntensity_claimed charIndexOf_claimed
        effectiveIndex_def prod.case bool.case option.case simp_thms)

section \<open>Properties of the rasterizer\<close>

text \<open>
  C6. Drawing a triangle whose transformed face normal has a non-positive dot product
  with the normalized view vector returns the renderer unchanged: index grid, depth grid
  and previous-index grid are as before.
\<close>

theorem backface_leaves_state:
  "dot (applyMatrix (tri_normal t) m)
       (viewVector (applyMatrix (tri_v1 t) m) (applyMatrix (tri_v2 t) m)
          (applyMatrix (tri_v3 t) m) cd)
     \<le> Num 0
   \<Longrightarrow> drawTriangle r t m L cd = Inr r"
  by (simp add: drawTriangle_def Let_def)

lemma div_not_NaN: "a / b \<ge> Num 0 \<Longrightarrow> b \<noteq> NaN"
  by (cases b) auto

text \<open>
  C10. For a cell that passed the containment test, the denominator that the per-pixel
  branch computes anew is the one that the containment test checked, its absolute value
  is at least 0.001, and so the divisions by it are not divisions by zero.
\<close>

theorem perPixel_denominator:
  assumes "isPointInTriangle px py p1 p2 p3"
  shows "perPixelDenom p1 p2 p3 = containmentDenom p1 p2 p3
     \<and> Num 0.001 \<le> Math_abs (perPixelDenom p1 p2 p3)
     \<and> perPixelDenom p1 p2 p3 \<noteq> Num 0"
proof -
  let ?d = "containmentDenom p1 p2 p3"
  have eq: "perPixelDenom p1 p2 p3 = ?d"
    by (simp add: perPixelDenom_def containmentDenom_def)
  from assms have nl: "\<not> Math_abs ?d < Num 0.001"
    by (auto simp: isPointInTriangle_def Let_def split: if_splits)
  from assms have "\<exists>a. a / ?d \<ge> Num 0"
    by (auto simp: isPointInTriangle_def Let_def split: if_splits)
  then have nn: "?d \<noteq> NaN" using div_not_NaN by blast
  from nl nn have "Num 0.001 \<le> Math_abs ?d \<and> ?d \<noteq> Num 0"
    by (cases ?d) (auto simp: less_eq_number_def)
  with eq show ?thesis by simp
qed

lemma indexOf_real: "indexOf (real i) n = (if i < n then Some i else None)"
  by (simp add: indexOf_def)

lemma gridRow_real: "j < length grid \<Longrightarrow> gridRow grid (real j) = Some (j, grid ! j)"
  by (simp add: gridRow_def indexOf_real)

lemma rowCell_real: "i < length row \<Longrightarrow> rowCell row (real i) = row ! i"
  by (simp add: rowCell_def indexOf_real)

lemma rasterizeCell_in_grid:
  assumes "j < length (depthBuffer r)" "i < length (depthBuffer r ! j)"
    and "j < length (prevIndexBuffer r)" "i < length (prevIndexBuffer r ! j)"
  shows "rasterizeCell p1 p2 p3 ci vn ld (real j) (real i) r =
     (if isPointInTriangle (Num (real i)) (Num (real j)) p1 p2 p3
         \<and> flatDepth p1 p2 p3 < depthBuffer r ! j ! i - Num 0.005
      then Inr (r\<lparr> indexBuffer := update2 (indexBuffer r) j i
                     (blendedIndex (prevIndexBuffer r ! j ! i)
                        (effectiveIndex r p1 p2 p3 ci vn ld (Num (real i)) (Num (real j)))),
                   depthBuffer := update2 (depthBuffer r) j i (flatDepth p1 p2 p3) \<rparr>)
      else Inr r)"
  using assms by (simp add: rasterizeCell_def Let_def gridRow_real rowCell_real)

lemma not_less_minus_bias: "\<not> (a :: number) < a - Num 0.005"
  by (cases a) simp_all

text \<open>
  C4, amended. For a covered cell inside the grids, the cell's depth and index entries are
  overwritten exactly when the triangle's flat depth is below the stored depth minus the bias
  0.005. A candidate at the stored depth, and any candidate that is not nearer than the
  stored depth by more than the bias, leaves the cell as the first writer left it.
\<close>

theorem depth_test_overwrite:
  assumes "j < length (depthBuffer r)" "i < length (depthBuffer r ! j)"
    and "j < length (prevIndexBuffer r)" "i < length (prevIndexBuffer r ! j)"
    and "isPointInTriangle (Num (real i)) (Num (real j)) p1 p2 p3"
  shows "rasterizeCell p1 p2 p3 ci vn ld (real j) (real i) r =
       (if flatDepth p1 p2 p3 < depthBuffer r ! j ! i - Num 0.005
        then Inr (r\<lparr> indexBuffer := update2 (indexBuffer r) j i
                     (blendedIndex (prevIndexBuffer r ! j ! i)
                        (effectiveIndex r p1 p2 p3 ci vn ld (Num (real i)) (Num (real j)))),
                   depthBuffer := update2 (depthBuffer r) j i (flatDepth p1 p2 p3) \<rparr>)
        else Inr r)
     \<and> (depthBuffer r ! j ! i = flatDepth p1 p2 p3 \<longrightarrow>
          rasterizeCell p1 p2 p3 ci vn ld (real j) (real i) r = Inr r)
     \<and> (\<forall>d s. flatDepth p1 p2 p3 = Num d \<and> depthBuffer r ! j ! i = Num s \<and> s - 0.005 \<le> d \<longrightarrow>
          rasterizeCell p1 p2 p3 ci vn ld (real j) (real i) r = Inr r)"
proof -
  have eq: "rasterizeCell p1 p2 p3 ci vn ld (real j) (real i) r =
       (if flatDepth p1 p2 p3 < depthBuffer r ! j ! i - Num 0.005
        then Inr (r\<lparr> indexBuffer := update2 (indexBuffer r) j i
                     (blendedIndex (prevIndexBuffer r ! j ! i)
                        (effectiveIndex r p1 p2 p3 ci vn ld (Num (real i)) (Num (real j)))),
                   depthBuffer := update2 (depthBuffer r) j i (flatDepth p1 p2 p3) \<rparr>)
        else Inr r)"
    using assms by (simp only: rasterizeCell_in_grid simp_thms)
  have tie: "depthBuffer r ! j ! i = flatDepth p1 p2 p3 \<Longrightarrow>
      \<not> flatDepth p1 p2 p3 < depthBuffer r ! j ! i - Num 0.005"
    using not_less_minus_bias [of "flatDepth p1 p2 p3"] by simp
  have near: "\<And>d s. flatDepth p1 p2 p3 = Num d \<Longrightarrow> depthBuffer r ! j ! i = Num s \<Longrightarrow> s - 0.005 \<le> d
      \<Longrightarrow> \<not> flatDepth p1 p2 p3 < depthBuffer r ! j ! i - Num 0.005"
    by simp
  show ?thesis
  proof (intro conjI impI allI)
    show "rasterizeCell p1 p2 p3 ci vn ld (real j) (real i) r =
       (if flatDepth p1 p2 p3 < depthBuffer r ! j ! i - Num 0.005
        then Inr (r\<lparr> indexBuffer := update2 (indexBuffer r) j i
                     (blendedIndex (prevIndexBuffer r ! j ! i)
                        (effectiveIndex r p1 p2 p3 ci vn ld (Num (real i)) (Num (real j)))),
                   depthBuffer := update2 (depthBuffer r) j i (flatDepth p1 p2 p3) \<rparr>)
        else Inr r)" by (rule eq)
  next
    assume "depthBuffer r ! j ! i = flatDepth p1 p2 p3"
    from tie [OF this] show "rasterizeCell p1 p2 p3 ci vn ld (real j) (real i) r = Inr r"
      by (simp only: eq if_False)
  next
    fix d s
    assume "flatDepth p1 p2 p3 = Num d \<and> depthBuffer r ! j ! i = Num s \<and> s - 0.005 \<le> d"
    then have "\<not> flatDepth p1 p2 p3 < depthBuffer r ! j ! i - Num 0.005"
      using near by blast
    then show "rasterizeCell p1 p2 p3 ci vn ld (real j) (real i) r = Inr r"
      by (simp only: eq if_False)
  qed
qed

lemma round_blend: "\<lfloor>real_of_int p * 0.3 + real_of_int k * 0.7 + 1 / 2\<rfloor> = (3 * p + 7 * k + 5) div 10"
proof -
  have "real_of_int p * 0.3 + real_of_int k * 0.7 + 1 / 2 = real_of_int (3 * p + 7 * k + 5) / real_of_int 10"
    by simp
  then show ?thesis by (simp only: floor_divide_of_int_eq)
qed

lemma blendedIndex_int:
  "p \<noteq> - 1 \<Longrightarrow> blendedIndex (Num (of_int p)) (Num (of_int k)) = Num (of_int ((3 * p + 7 * k + 5) div 10))"
  using round_blend [of p k] by (simp add: blendedIndex_def strictEq_def)

lemma blendedIndex_empty: "blendedIndex (Num (- 1)) e = e"
  by (simp add: blendedIndex_def strictEq_def)




text \<open>
  The exact sum \<open>prev * 0.3 + eff * 0.7\<close> can be a half (previous index 1, current index
  6: 4.5), which \<open>Math.round\<close> rounds up, and the sum as the program computes it in
  doubles can fall just below that half (4.499999999999999), which \<open>Math.round\<close> rounds
  down. Whichever of the two nearest integers each frame emits, the third frame that
  computes \<open>v\<close> emits \<open>v\<close>.
\<close>

lemma blend_either_tie:
  fixes p v s1 s2 s3 :: int
  assumes "0 \<le> p" "p \<le> 9" "0 \<le> v" "v \<le> 9"
    and "\<bar>10 * s1 - (3 * p + 7 * v)\<bar> \<le> 5"
    and "\<bar>10 * s2 - (3 * s1 + 7 * v)\<bar> \<le> 5"
    and "\<bar>10 * s3 - (3 * s2 + 7 * v)\<bar> \<le> 5"
  shows "s3 = v"
  using assms by linarith


section \<open>Properties of the geometry\<close>

lemma js_rem_turn: "js_rem (Num a) (Num 2 * Math_PI) = Num (reducedAngle a)"
  by (simp add: Math_PI_def reducedAngle_def)

text \<open>
  C8. For Euler angles \<open>ax\<close>, \<open>ay\<close>, \<open>az\<close>, the matrix built is the product
  \<open>Rx \<cdot> Ry \<cdot> Rz\<close> of the standard axis rotations, each at its angle reduced modulo a
  full turn; applied to a vector it rotates about Z first, then about Y, then about X.
\<close>

theorem rotation_matrix_composition:
  "createRotationMatrix (Num ax) (Num ay) (Num az) =
     matMul (rotX (reducedAngle ax)) (matMul (rotY (reducedAngle ay)) (rotZ (reducedAngle az)))
   \<and> applyMatrix (point v) (createRotationMatrix (Num ax) (Num ay) (Num az)) =
       applyMatrix (applyMatrix (applyMatrix (point v) (rotZ (reducedAngle az)))
          (rotY (reducedAngle ay))) (rotX (reducedAngle ax))"
proof
  show m: "createRotationMatrix (Num ax) (Num ay) (Num az) =
     matMul (rotX (reducedAngle ax)) (matMul (rotY (reducedAngle ay)) (rotZ (reducedAngle az)))"
    by (simp add: createRotationMatrix_def js_rem_turn Let_def rotX_def rotY_def rotZ_def algebra_simps)
  obtain v1 v2 v3 where v: "v = (v1, v2, v3)" by (cases v)
  show "applyMatrix (point v) (createRotationMatrix (Num ax) (Num ay) (Num az)) =
       applyMatrix (applyMatrix (applyMatrix (point v) (rotZ (reducedAngle az)))
          (rotY (reducedAngle ay))) (rotX (reducedAngle ax))"
    unfolding m v
    by (simp add: rotX_def rotY_def rotZ_def algebra_simps point.simps)
qed

lemma sum_squares3_pos:
  fixes x y z :: real
  assumes "x \<noteq> 0 \<or> y \<noteq> 0 \<or> z \<noteq> 0"
  shows "0 < x * x + y * y + z * z"
proof -
  have "0 \<le> x * x" "0 \<le> y * y" "0 \<le> z * z" by simp_all
  moreover from assms have "0 < x * x \<or> 0 < y * y \<or> 0 < z * z"
    by (auto simp: zero_less_mult_iff)
  ultimately show ?thesis by linarith
qed

lemma vec_normalize_point:
  "vec_normalize (point (x, y, z)) =
     (if x = 0 \<and> y = 0 \<and> z = 0 then Vector3_zero
      else point (x / sqrt (x * x + y * y + z * z), y / sqrt (x * x + y * y + z * z),
                  z / sqrt (x * x + y * y + z * z)))"
proof (cases "x = 0 \<and> y = 0 \<and> z = 0")
  case True
  then show ?thesis by (simp add: vec_normalize_def Let_def strictEq_def point.simps)
next
  case False
  then have "0 < x * x + y * y + z * z" by (intro sum_squares3_pos) blast
  then have "\<not> x * x + y * y + z * z < 0" "sqrt (x * x + y * y + z * z) \<noteq> 0" by simp_all
  with False show ?thesis by (auto simp: vec_normalize_def Let_def strictEq_def point.simps)
qed

lemma unit_length:
  assumes "x \<noteq> 0 \<or> y \<noteq> 0 \<or> z \<noteq> 0"
  shows "vec_length (point (x / sqrt (x * x + y * y + z * z), y / sqrt (x * x + y * y + z * z),
                  z / sqrt (x * x + y * y + z * z))) = Num 1"
proof -
  define q where "q = x * x + y * y + z * z"
  define r where "r = sqrt q"
  have qpos: "0 < q" unfolding q_def using assms by (rule sum_squares3_pos)
  then have rr: "r * r = q" unfolding r_def by simp
  have "x * x / (r * r) + y * y / (r * r) + z * z / (r * r) = (x * x + y * y + z * z) / (r * r)"
    by (simp add: add_divide_distrib)
  also have "\<dots> = 1" using qpos by (simp add: rr q_def [symmetric])
  finally have one: "x * x / (r * r) + y * y / (r * r) + z * z / (r * r) = 1" .
  have "vec_length (point (x / r, y / r, z / r)) = Num 1"
    by (simp add: vec_length_def one point.simps)
  then show ?thesis unfolding r_def q_def .
qed

lemma cross_zero_iff_degenerate:
  "degenerate (a1, a2, a3) (b1, b2, b3) (c1, c2, c3) \<longleftrightarrow>
     ((b2 - a2) * (c3 - a3) - (b3 - a3) * (c2 - a2) = 0
      \<and> (b3 - a3) * (c1 - a1) - (b1 - a1) * (c3 - a3) = 0
      \<and> (b1 - a1) * (c2 - a2) - (b2 - a2) * (c1 - a1) = 0)"
  (is "?D \<longleftrightarrow> ?C")
proof
  define u1 u2 u3 w1 w2 w3 where uw: "u1 = b1 - a1" "u2 = b2 - a2" "u3 = b3 - a3"
    "w1 = c1 - a1" "w2 = c2 - a2" "w3 = c3 - a3"
  {
    assume ?D
    then obtain s t where st: "s \<noteq> 0 \<or> t \<noteq> 0" "s * u1 + t * w1 = 0" "s * u2 + t * w2 = 0" "s * u3 + t * w3 = 0"
      unfolding uw by auto
    have "u2 * w3 - u3 * w2 = 0 \<and> u3 * w1 - u1 * w3 = 0 \<and> u1 * w2 - u2 * w1 = 0"
    proof (cases "s = 0")
      case True
      with st have "t \<noteq> 0" "w1 = 0" "w2 = 0" "w3 = 0" by auto
      then show ?thesis by simp
    next
      case False
      have "s * (u2 * w3 - u3 * w2) = (s * u2 + t * w2) * w3 - (s * u3 + t * w3) * w2"
        "s * (u3 * w1 - u1 * w3) = (s * u3 + t * w3) * w1 - (s * u1 + t * w1) * w3"
        "s * (u1 * w2 - u2 * w1) = (s * u1 + t * w1) * w2 - (s * u2 + t * w2) * w1"
        by (simp_all add: algebra_simps)
      then have "s * (u2 * w3 - u3 * w2) = 0" "s * (u3 * w1 - u1 * w3) = 0"
        "s * (u1 * w2 - u2 * w1) = 0"
        by (simp_all only: st mult_zero_left diff_self)
      with False show ?thesis by (simp only: mult_eq_0_iff simp_thms)
    qed
    then show ?C unfolding uw .
  }
  {
    assume ?C
    then have c: "u2 * w3 - u3 * w2 = 0" "u3 * w1 - u1 * w3 = 0" "u1 * w2 - u2 * w1 = 0"
      unfolding uw by auto
    have "\<exists>s t. (s \<noteq> 0 \<or> t \<noteq> 0) \<and> s * u1 + t * w1 = 0 \<and> s * u2 + t * w2 = 0 \<and> s * u3 + t * w3 = 0"
    proof (cases "u1 = 0 \<and> u2 = 0 \<and> u3 = 0")
      case True
      then show ?thesis by (intro exI [of _ 1] exI [of _ 0]) simp
    next
      case False
      then consider "u1 \<noteq> 0" | "u2 \<noteq> 0" | "u3 \<noteq> 0" by blast
      then show ?thesis
      proof cases
        case 1
        with c show ?thesis by (intro exI [of _ w1] exI [of _ "- u1"]) (simp add: algebra_simps)
      next
        case 2
        with c show ?thesis by (intro exI [of _ w2] exI [of _ "- u2"]) (simp add: algebra_simps)
      next
        case 3
        with c show ?thesis by (intro exI [of _ w3] exI [of _ "- u3"]) (simp add: algebra_simps)
      qed
    qed
    then show ?D unfolding uw by simp
  }
qed

lemma calculateNormal_point:
  "calculateNormal (point (a1, a2, a3)) (point (b1, b2, b3)) (point (c1, c2, c3)) =
     vec_normalize (point ((b2 - a2) * (c3 - a3) - (b3 - a3) * (c2 - a2),
                       (b3 - a3) * (c1 - a1) - (b1 - a1) * (c3 - a3),
                       (b1 - a1) * (c2 - a2) - (b2 - a2) * (c1 - a1)))"
  by (simp add: calculateNormal_def subtract_def cross_def Let_def point.simps)


lemma point_cases: "finiteVector v \<Longrightarrow> \<exists>x y z. v = point (x, y, z)"
  by (cases v) (auto simp: finiteVector_def isFinite_def point.simps split: number.splits)

lemma finiteVector_point [simp]: "finiteVector (point a)"
  by (cases a) (simp add: finiteVector_def isFinite_def point.simps)

lemma finiteVector_zero [simp]: "finiteVector Vector3_zero"
  by (simp add: finiteVector_def isFinite_def Vector3_zero_def)

lemma vec_normalize_finite: "finiteVector v \<Longrightarrow> finiteVector (vec_normalize v)"
proof -
  assume "finiteVector v"
  then obtain x y z where v: "v = point (x, y, z)" using point_cases by blast
  show ?thesis unfolding v vec_normalize_point by simp
qed

lemma viewVector_point:
  "viewVector (point (x1, y1, z1)) (point (x2, y2, z2)) (point (x3, y3, z3)) (Num cd) =
     vec_normalize (point (0 - (x1 + x2 + x3) / 3, 0 - (y1 + y2 + y3) / 3, - cd - (z1 + z2 + z3) / 3))"
  by (simp add: viewVector_def Let_def subtract_def point.simps)

lemma viewVector_finite:
  assumes "finiteVector v1" "finiteVector v2" "finiteVector v3" "isFinite cd"
  shows "finiteVector (viewVector v1 v2 v3 cd)"
proof -
  from assms obtain a b c d where "v1 = point a" "v2 = point b" "v3 = point c" "cd = Num d"
    using point_cases by (cases cd) (auto simp: isFinite_def, metis)
  moreover obtain x1 y1 z1 x2 y2 z2 x3 y3 z3 where "a = (x1, y1, z1)" "b = (x2, y2, z2)" "c = (x3, y3, z3)"
    by (cases a, cases b, cases c) auto
  ultimately show ?thesis by (simp add: viewVector_point vec_normalize_finite)
qed

lemma dot_zero_finite: "finiteVector w \<Longrightarrow> dot Vector3_zero w = Num 0"
  using point_cases [of w] by (auto simp: dot_def Vector3_zero_def point.simps)

lemma applyMatrix_finite: "finiteVector v \<Longrightarrow> finiteMatrix m \<Longrightarrow> finiteVector (applyMatrix v m)"
  by (cases v; cases m rule: finiteMatrix.cases)
     (auto simp: finiteVector_def isFinite_def split: number.splits)

lemma applyMatrix_identity: "applyMatrix (point a) identityMatrix = point a"
  by (cases a) (simp add: identityMatrix_def point.simps)

lemma applyMatrix_identity_zero: "applyMatrix Vector3_zero identityMatrix = Vector3_zero"
  by (simp add: identityMatrix_def Vector3_zero_def)

lemma degenerate_sample: "degenerate (0, 0, 0) (1, 0, 0) (2, 0, 0)"
  by (simp, intro exI [of _ 2] exI [of _ "- 1"]) simp

lemma not_degenerate_sample: "\<not> degenerate (0, 0, 0) (1, 0, 0) (0, 1, 0)"
  unfolding cross_zero_iff_degenerate by simp

lemma withinRange_finite: "withinRange a \<Longrightarrow> isFinite a"
  by (cases a) (simp_all add: withinRange_def isFinite_def)

lemma boundedVector_finite: "boundedVector v \<Longrightarrow> finiteVector v"
  by (simp add: boundedVector_def finiteVector_def withinRange_finite)

lemma boundedMatrix_finite: "boundedMatrix m \<Longrightarrow> finiteMatrix m"
  by (cases m rule: finiteMatrix.cases) (simp add: withinRange_finite)

lemma boundedNormals_finite: "boundedNormals t \<Longrightarrow> finiteNormals t"
  by (simp add: boundedNormals_def finiteNormals_def boundedVector_finite)

lemma applyMatrix_zero: "finiteMatrix m \<Longrightarrow> applyMatrix Vector3_zero m = Vector3_zero"
  by (cases m rule: finiteMatrix.cases)
     (auto simp: Vector3_zero_def isFinite_def split: number.splits)

lemma flatTriangle_normal: "tri_normal flatTriangle = Vector3_zero"
  by (simp add: flatTriangle_def new_Triangle_def calculateNormal_point vec_normalize_point)

lemma flatTriangle_vertices:
  "tri_v1 flatTriangle = point (0, 0, 0)" "tri_v2 flatTriangle = point (1, 0, 0)"
  "tri_v3 flatTriangle = point (2, 0, 0)"
  by (simp_all add: flatTriangle_def new_Triangle_def)

lemma gridPoint_samples:
  "gridPoint (0, 0, 0)" "gridPoint (1, 0, 0)" "gridPoint (2, 0, 0)" "gridPoint (0, 1, 0)"
  by simp_all

lemma bounded_samples:
  "boundedVector (point (0, 0, 0))" "boundedVector (point (1, 0, 0))" "boundedVector (point (2, 0, 0))"
  "boundedMatrix identityMatrix" "withinRange sampleDistance" "boundedVector lightRight"
  by (simp_all add: boundedVector_def withinRange_def point.simps identityMatrix_def
      sampleDistance_def lightRight_def)

text \<open>
  In exact arithmetic, for points of real space: the computed face normal is the zero
  vector when the triangle is degenerate and has length 1 otherwise.
\<close>

lemma calculateNormal_exact:
  "(degenerate a b c \<longrightarrow> tri_normal (new_Triangle (point a) (point b) (point c) None) = Vector3_zero)
   \<and> (\<not> degenerate a b c \<longrightarrow>
        vec_length (tri_normal (new_Triangle (point a) (point b) (point c) None)) = Num 1)"
proof (intro conjI impI)
  obtain a1 a2 a3 b1 b2 b3 c1 c2 c3 where abc: "a = (a1, a2, a3)" "b = (b1, b2, b3)" "c = (c1, c2, c3)"
    by (cases a, cases b, cases c) auto
  {
    assume "degenerate a b c"
    then have cz: "(b2 - a2) * (c3 - a3) - (b3 - a3) * (c2 - a2) = 0
      \<and> (b3 - a3) * (c1 - a1) - (b1 - a1) * (c3 - a3) = 0
      \<and> (b1 - a1) * (c2 - a2) - (b2 - a2) * (c1 - a1) = 0"
      unfolding abc cross_zero_iff_degenerate .
    show "tri_normal (new_Triangle (point a) (point b) (point c) None) = Vector3_zero"
      unfolding abc using cz by (simp add: new_Triangle_def calculateNormal_point vec_normalize_point)
  }
  {
    assume "\<not> degenerate a b c"
    then have cz: "\<not> ((b2 - a2) * (c3 - a3) - (b3 - a3) * (c2 - a2) = 0
      \<and> (b3 - a3) * (c1 - a1) - (b1 - a1) * (c3 - a3) = 0
      \<and> (b1 - a1) * (c2 - a2) - (b2 - a2) * (c1 - a1) = 0)"
      unfolding abc cross_zero_iff_degenerate .
    have "tri_normal (new_Triangle (point a) (point b) (point c) None) =
        vec_normalize (point ((b2 - a2) * (c3 - a3) - (b3 - a3) * (c2 - a2),
                       (b3 - a3) * (c1 - a1) - (b1 - a1) * (c3 - a3),
                       (b1 - a1) * (c2 - a2) - (b2 - a2) * (c1 - a1)))"
      unfolding abc by (simp add: new_Triangle_def calculateNormal_point)
    also have "vec_length \<dots> = Num 1"
      unfolding vec_normalize_point using cz by (simp only: if_False) (rule unit_length, blast)
    finally show "vec_length (tri_normal (new_Triangle (point a) (point b) (point c) None)) = Num 1" .
  }
qed

text \<open>
  C7, as the claim states it, fails: not every triangle whose normal is computed gets a
  normal of length 1 or the zero vector, and a zero transformed normal is not always
  classified back-facing. With a vertex coordinate \<open>Infinity\<close> the cross product of the
  edges has the components 0, \<open>NaN\<close> and \<open>Infinity\<close>, and the computed normal is
  \<open>(NaN, NaN, NaN)\<close>; normalizing any vector with an infinite component gives a \<open>NaN\<close>
  component (in the program a product of coordinates beyond the range of doubles is
  such a component). With the camera distance \<open>Infinity\<close> the view vector of a triangle
  whose transformed normal is the zero vector has a \<open>NaN\<close> component, the dot product
  is \<open>NaN\<close>, and \<open>NaN <= 0\<close> is false: the triangle passes the back-face test.
\<close>

theorem nonfinite_input_breaks_normal:
  "tri_normal farTriangle = Vector3 NaN NaN NaN
   \<and> vec_length (tri_normal farTriangle) = NaN
   \<and> tri_normal farTriangle \<noteq> Vector3_zero
   \<and> vec_normalize (Vector3 (Num 0) (Num 0) Infinity) = Vector3 (Num 0) (Num 0) NaN
   \<and> applyMatrix (tri_normal flatTriangle) identityMatrix = Vector3_zero
   \<and> dot (applyMatrix (tri_normal flatTriangle) identityMatrix)
        (viewVector (applyMatrix (tri_v1 flatTriangle) identityMatrix)
           (applyMatrix (tri_v2 flatTriangle) identityMatrix)
           (applyMatrix (tri_v3 flatTriangle) identityMatrix) Infinity) = NaN
   \<and> \<not> dot (applyMatrix (tri_normal flatTriangle) identityMatrix)
        (viewVector (applyMatrix (tri_v1 flatTriangle) identityMatrix)
           (applyMatrix (tri_v2 flatTriangle) identityMatrix)
           (applyMatrix (tri_v3 flatTriangle) identityMatrix) Infinity) \<le> Num 0"
proof -
  have n: "tri_normal farTriangle = Vector3 NaN NaN NaN"
    by (simp add: farTriangle_def new_Triangle_def calculateNormal_def subtract_def cross_def
        vec_normalize_def Let_def point.simps minus_number_def inf_of_sign_def strictEq_def)
  have l: "vec_length (Vector3 NaN NaN NaN) = NaN"
    by (simp add: vec_length_def)
  have z: "Vector3 NaN NaN NaN \<noteq> Vector3_zero"
    by (simp add: Vector3_zero_def)
  have i: "vec_normalize (Vector3 (Num 0) (Num 0) Infinity) = Vector3 (Num 0) (Num 0) NaN"
    by (simp add: vec_normalize_def Let_def inf_of_sign_def strictEq_def)
  have t: "applyMatrix (tri_normal flatTriangle) identityMatrix = Vector3_zero"
    by (simp add: flatTriangle_normal applyMatrix_identity_zero)
  have d: "dot (applyMatrix (tri_normal flatTriangle) identityMatrix)
        (viewVector (applyMatrix (tri_v1 flatTriangle) identityMatrix)
           (applyMatrix (tri_v2 flatTriangle) identityMatrix)
           (applyMatrix (tri_v3 flatTriangle) identityMatrix) Infinity) = NaN"
    unfolding t flatTriangle_vertices applyMatrix_identity
    by (simp add: viewVector_def Let_def subtract_def vec_normalize_def dot_def Vector3_zero_def
        point.simps minus_number_def inf_of_sign_def strictEq_def)
  from n l z i t d show ?thesis by simp
qed

text \<open>
  C7, amended. For vertices with integer coordinates of magnitude at most \<open>2^20\<close>, the
  face normal that the constructor computes is the zero vector when the triangle is
  degenerate (its vertices on one line, coincident vertices included) and has length 1
  otherwise. A triangle whose face normal is the zero vector has the zero vector as its
  transformed normal, is classified back-facing and is not drawn (the renderer is returned
  unchanged), when its vertex coordinates, the matrix entries and the camera distance are
  finite and of magnitude at most \<open>10^60\<close>.
\<close>

theorem computed_normal_unit_or_zero:
  "(gridPoint a \<and> gridPoint b \<and> gridPoint c \<longrightarrow>
      (degenerate a b c \<longrightarrow>
         tri_normal (new_Triangle (point a) (point b) (point c) None) = Vector3_zero)
      \<and> (\<not> degenerate a b c \<longrightarrow>
         vec_length (tri_normal (new_Triangle (point a) (point b) (point c) None)) = Num 1))
   \<and> (tri_normal t = Vector3_zero
        \<and> boundedVector (tri_v1 t) \<and> boundedVector (tri_v2 t) \<and> boundedVector (tri_v3 t)
        \<and> boundedMatrix m \<and> withinRange cd
      \<longrightarrow> applyMatrix (tri_normal t) m = Vector3_zero
          \<and> dot (applyMatrix (tri_normal t) m)
               (viewVector (applyMatrix (tri_v1 t) m) (applyMatrix (tri_v2 t) m)
                  (applyMatrix (tri_v3 t) m) cd) \<le> Num 0
          \<and> drawTriangle r t m L cd = Inr r)"
proof (intro conjI impI)
  show "tri_normal (new_Triangle (point a) (point b) (point c) None) = Vector3_zero"
    if "degenerate a b c"
    using that calculateNormal_exact by blast
  show "vec_length (tri_normal (new_Triangle (point a) (point b) (point c) None)) = Num 1"
    if "\<not> degenerate a b c"
    using that calculateNormal_exact by blast
next
  assume h: "tri_normal t = Vector3_zero
        \<and> boundedVector (tri_v1 t) \<and> boundedVector (tri_v2 t) \<and> boundedVector (tri_v3 t)
        \<and> boundedMatrix m \<and> withinRange cd"
  then have fm: "finiteMatrix m" by (simp add: boundedMatrix_finite)
  with h show z: "applyMatrix (tri_normal t) m = Vector3_zero"
    by (simp add: applyMatrix_zero)
  from h fm have "finiteVector (viewVector (applyMatrix (tri_v1 t) m) (applyMatrix (tri_v2 t) m)
      (applyMatrix (tri_v3 t) m) cd)"
    by (intro viewVector_finite applyMatrix_finite boundedVector_finite withinRange_finite) simp_all
  with z have d: "dot (applyMatrix (tri_normal t) m) (viewVector (applyMatrix (tri_v1 t) m)
      (applyMatrix (tri_v2 t) m) (applyMatrix (tri_v3 t) m) cd) = Num 0"
    by (simp add: dot_zero_finite)
  then show "dot (applyMatrix (tri_normal t) m) (viewVector (applyMatrix (tri_v1 t) m)
      (applyMatrix (tri_v2 t) m) (applyMatrix (tri_v3 t) m) cd) \<le> Num 0"
    by simp
  from d show "drawTriangle r t m L cd = Inr r"
    by (simp add: drawTriangle_def Let_def)
qed

theorem computed_normal_unit_or_zero_witness:
  "gridPoint (0, 0, 0) \<and> gridPoint (1, 0, 0) \<and> gridPoint (2, 0, 0) \<and> gridPoint (0, 1, 0)
   \<and> degenerate (0, 0, 0) (1, 0, 0) (2, 0, 0)
   \<and> tri_normal flatTriangle = Vector3_zero
   \<and> \<not> degenerate (0, 0, 0) (1, 0, 0) (0, 1, 0)
   \<and> vec_length (tri_normal (new_Triangle (point (0, 0, 0)) (point (1, 0, 0)) (point (0, 1, 0)) None)) = Num 1
   \<and> boundedVector (tri_v1 flatTriangle) \<and> boundedVector (tri_v2 flatTriangle)
   \<and> boundedVector (tri_v3 flatTriangle) \<and> boundedMatrix identityMatrix
   \<and> withinRange sampleDistance
   \<and> applyMatrix (tri_normal flatTriangle) identityMatrix = Vector3_zero
   \<and> dot (applyMatrix (tri_normal flatTriangle) identityMatrix)
        (viewVector (applyMatrix (tri_v1 flatTriangle) identityMatrix)
           (applyMatrix (tri_v2 flatTriangle) identityMatrix)
           (applyMatrix (tri_v3 flatTriangle) identityMatrix) sampleDistance) \<le> Num 0
   \<and> drawTriangle smallRenderer flatTriangle identityMatrix (point (0, 0, - 1)) sampleDistance = Inr smallRenderer"
proof -
  have z: "tri_normal flatTriangle = Vector3_zero"
    using computed_normal_unit_or_zero [of "(0, 0, 0)" "(1, 0, 0)" "(2, 0, 0)"] degenerate_sample
      gridPoint_samples
    unfolding flatTriangle_def by blast
  have u: "vec_length (tri_normal (new_Triangle (point (0, 0, 0)) (point (1, 0, 0)) (point (0, 1, 0)) None)) = Num 1"
    using computed_normal_unit_or_zero [of "(0, 0, 0)" "(1, 0, 0)" "(0, 1, 0)"] not_degenerate_sample
      gridPoint_samples
    by blast
  have h: "boundedVector (tri_v1 flatTriangle) \<and> boundedVector (tri_v2 flatTriangle)
      \<and> boundedVector (tri_v3 flatTriangle) \<and> boundedMatrix identityMatrix
      \<and> withinRange sampleDistance"
    by (simp add: flatTriangle_vertices bounded_samples)
  have d: "applyMatrix (tri_normal flatTriangle) identityMatrix = Vector3_zero
     \<and> dot (applyMatrix (tri_normal flatTriangle) identityMatrix)
        (viewVector (applyMatrix (tri_v1 flatTriangle) identityMatrix)
           (applyMatrix (tri_v2 flatTriangle) identityMatrix)
           (applyMatrix (tri_v3 flatTriangle) identityMatrix) sampleDistance) \<le> Num 0
     \<and> drawTriangle smallRenderer flatTriangle identityMatrix (point (0, 0, - 1)) sampleDistance = Inr smallRenderer"
    using computed_normal_unit_or_zero [of _ _ _ flatTriangle identityMatrix sampleDistance] h z by blast
  from z u h d degenerate_sample not_degenerate_sample gridPoint_samples show ?thesis by blast
qed


section \<open>Evaluating the projection\<close>

lemma tan_pi_8_bounds: "0.41 < tan (pi / 8)" "tan (pi / 8) < 0.42"
proof -
  define t where "t = tan (pi / 8)"
  have tpos: "0 < t" unfolding t_def by (rule tan_gt_zero) simp_all
  have c1: "cos (pi / 8) \<noteq> 0" by (rule cos_gt_zero_pi [THEN less_imp_neq, THEN not_sym]) simp_all
  have dbl: "2 * (pi / 8) = pi / 4" by simp
  have c2: "cos (2 * (pi / 8)) \<noteq> 0" unfolding dbl cos_45 by simp
  have "tan (2 * (pi / 8)) = 2 * t / (1 - t\<^sup>2)" unfolding t_def by (rule tan_double [OF c1 c2])
  moreover have "tan (2 * (pi / 8)) = 1" unfolding dbl by (rule tan_45)
  ultimately have e: "2 * t / (1 - t\<^sup>2) = 1" by simp
  then have "1 - t\<^sup>2 \<noteq> 0" by (metis div_by_0 zero_neq_one)
  with e have q: "t\<^sup>2 + 2 * t = 1" by (simp add: field_simps)
  have "(100 * t - 41) * (100 * t + 241) = 10000 * (t\<^sup>2 + 2 * t) - 9881"
    by (simp add: algebra_simps power2_eq_square)
  with q have "0 < (100 * t - 41) * (100 * t + 241)" by simp
  with tpos have "0 < 100 * t - 41" by (simp add: zero_less_mult_iff)
  then show "0.41 < tan (pi / 8)" unfolding t_def by simp
  have "(100 * t - 42) * (100 * t + 242) = 10000 * (t\<^sup>2 + 2 * t) - 10164"
    by (simp add: algebra_simps power2_eq_square)
  with q have "(100 * t - 42) * (100 * t + 242) < 0" by simp
  with tpos have "100 * t - 42 < 0" by (simp add: mult_less_0_iff)
  then show "tan (pi / 8) < 0.42" unfolding t_def by simp
qed

lemma half_fov: "Math_tan (Num 45 * Math_PI / Num 180 / Num 2) = Num (tan (pi / 8))"
proof -
  have "45 * pi / 180 / 2 = pi / 8" by simp
  then show ?thesis by (simp add: Math_PI_def)
qed

lemma scale_bounds:
  assumes "2.9 \<le> z" "z \<le> 3.1"
  shows "1.2 / (tan (pi / 8) * z) < 1.25" "0.5 < 1.2 / (tan (pi / 8) * z)"
proof -
  have "0.41 * 2.9 < tan (pi / 8) * z"
    by (rule mult_less_le_imp_less [OF tan_pi_8_bounds(1) assms(1)]) simp_all
  then have lo: "1.189 < tan (pi / 8) * z" by simp
  have z32: "z < 3.2" "0 \<le> z" using assms by linarith+
  have "tan (pi / 8) * z < 0.42 * 3.2"
    by (rule mult_strict_mono [OF tan_pi_8_bounds(2) z32(1) _ z32(2)]) simp
  then have hi: "tan (pi / 8) * z < 1.344" by simp
  from lo hi show "1.2 / (tan (pi / 8) * z) < 1.25" "0.5 < 1.2 / (tan (pi / 8) * z)"
    by (simp_all add: field_simps)
qed

lemma smallRenderer_dims [simp]: "width smallRenderer = 2" "height smallRenderer = 2"
  by (simp_all add: smallRenderer_def new_TerminalRenderer_def)

lemma project_general:
  assumes "0.1 < zv + 3" "width r = 2" "height r = 2"
  shows "projectToScreen r (point (x, y, zv)) sampleDistance =
     Point (Num (of_int \<lfloor>x / (tan (pi / 8) * (zv + 3)) * 0.6 + 1.5\<rfloor>))
           (Num (of_int \<lfloor>1.25 - y / (tan (pi / 8) * (zv + 3)) * 1.2\<rfloor>)) (Num zv)"
proof -
  have nz: "tan (pi / 8) * (zv + 3) \<noteq> 0" using tan_pi_8_bounds(1) assms(1) by simp
  show ?thesis
    using assms nz
    by (simp add: projectToScreen_def sampleDistance_def Let_def half_fov point.simps algebra_simps)
qed

lemma project_corners:
  assumes "- 0.1 \<le> zv" "zv \<le> 0.1" "width r = 2" "height r = 2"
  shows "projectToScreen r (point (- 2, 1, zv)) sampleDistance = Point (Num 0) (Num 0) (Num zv)"
    and "projectToScreen r (point (0, 1, zv)) sampleDistance = Point (Num 1) (Num 0) (Num zv)"
    and "projectToScreen r (point (- 2, 0, zv)) sampleDistance = Point (Num 0) (Num 1) (Num zv)"
proof -
  define q where "q = 1.2 / (tan (pi / 8) * (zv + 3))"
  have b: "q < 1.25" "0.5 < q" unfolding q_def using scale_bounds [of "zv + 3"] assms by simp_all
  have z: "0.1 < zv + 3" using assms by simp
  have x2: "- 2 / (tan (pi / 8) * (zv + 3)) * 0.6 + 1.5 = 1.5 - q" unfolding q_def by simp
  have y1: "1.25 - 1 / (tan (pi / 8) * (zv + 3)) * 1.2 = 1.25 - q" unfolding q_def by simp
  have f1: "\<lfloor>1.5 - q\<rfloor> = 0" using b by (simp add: floor_eq_iff)
  have f2: "\<lfloor>1.25 - q\<rfloor> = 0" using b by (simp add: floor_eq_iff)
  have f3: "\<lfloor>1.5 :: real\<rfloor> = 1" "\<lfloor>1.25 :: real\<rfloor> = 1" by (simp_all add: floor_eq_iff)
  show "projectToScreen r (point (- 2, 1, zv)) sampleDistance = Point (Num 0) (Num 0) (Num zv)"
    unfolding project_general [OF z assms(3,4)] x2 y1 f1 f2 by simp
  show "projectToScreen r (point (0, 1, zv)) sampleDistance = Point (Num 1) (Num 0) (Num zv)"
    unfolding project_general [OF z assms(3,4)] y1 f2 using f3 by simp
  show "projectToScreen r (point (- 2, 0, zv)) sampleDistance = Point (Num 0) (Num 1) (Num zv)"
    unfolding project_general [OF z assms(3,4)] x2 f1 using f3 by simp
qed

section \<open>Evaluating the back-face test and the lighting\<close>

lemma applyMatrix_identity_NaN:
  "applyMatrix (Vector3 NaN b c) identityMatrix = Vector3 NaN NaN NaN"
  by (simp add: identityMatrix_def)

lemma dot_normalize_sign:
  "(dot (point (n1, n2, n3)) (vec_normalize (point (w1, w2, w3))) \<le> Num 0) =
     (n1 * w1 + n2 * w2 + n3 * w3 \<le> 0)"
proof (cases "w1 = 0 \<and> w2 = 0 \<and> w3 = 0")
  case True
  then have "vec_normalize (point (w1, w2, w3)) = Vector3_zero" by (simp add: vec_normalize_point)
  with True show ?thesis by (simp add: dot_def Vector3_zero_def point.simps)
next
  case False
  define q where "q = sqrt (w1 * w1 + w2 * w2 + w3 * w3)"
  have "0 < w1 * w1 + w2 * w2 + w3 * w3" using False by (intro sum_squares3_pos) blast
  then have qpos: "0 < q" unfolding q_def by simp
  have "n1 * (w1 / q) + n2 * (w2 / q) + n3 * (w3 / q) = (n1 * w1 + n2 * w2 + n3 * w3) / q"
    by (simp add: add_divide_distrib)
  then have e: "(n1 * (w1 / q) + n2 * (w2 / q) + n3 * (w3 / q) \<le> 0) = (n1 * w1 + n2 * w2 + n3 * w3 \<le> 0)"
    using qpos by (simp add: divide_le_0_iff)
  from False have "vec_normalize (point (w1, w2, w3)) = point (w1 / q, w2 / q, w3 / q)"
    unfolding q_def by (auto simp: vec_normalize_point)
  then show ?thesis using e by (simp add: dot_def point.simps)
qed

lemma cornerTriangle_fields:
  "tri_v1 (cornerTriangle z n) = point (- 2, 1, z)"
  "tri_v2 (cornerTriangle z n) = point (0, 1, z)"
  "tri_v3 (cornerTriangle z n) = point (- 2, 0, z)"
  "tri_normal (cornerTriangle z n) = n"
  "tri_vn1 (cornerTriangle z n) = None"
  "tri_vn2 (cornerTriangle z n) = None"
  "tri_vn3 (cornerTriangle z n) = None"
  by (simp_all add: cornerTriangle_def new_Triangle_def)

lemma corner_backface:
  "(dot (point (n1, n2, n3)) (viewVector (point (- 2, 1, z)) (point (0, 1, z)) (point (- 2, 0, z))
       sampleDistance) \<le> Num 0) = (n1 * 4 / 3 - n2 * 2 / 3 - n3 * (3 + z) \<le> 0)"
  unfolding sampleDistance_def viewVector_point dot_normalize_sign
  by (simp add: algebra_simps)

lemma drawTriangle_corner:
  assumes "- 0.1 \<le> z" "z \<le> 0.1" "width r = 2" "height r = 2"
    and "0 < n1 * 4 / 3 - n2 * 2 / 3 - n3 * (3 + z)"
  shows "drawTriangle r (cornerTriangle z (point (n1, n2, n3))) identityMatrix L sampleDistance =
     rasterizeTriangle r (cornerA z) (cornerB z) (cornerC z)
       (charIndexOf (lightIntensity (point (n1, n2, n3)) L))
       (Some (point (n1, n2, n3), point (n1, n2, n3), point (n1, n2, n3))) (Some L)"
  using assms(5)
  by (simp add: drawTriangle_def Let_def cornerTriangle_fields applyMatrix_identity orElse_def
      corner_backface project_corners [OF assms(1-4)] cornerA_def cornerB_def cornerC_def not_le)

lemma drawTriangle_corner_NaN:
  assumes "- 0.1 \<le> z" "z \<le> 0.1" "width r = 2" "height r = 2"
  shows "drawTriangle r (cornerTriangle z (Vector3 NaN b c)) identityMatrix L sampleDistance =
     rasterizeTriangle r (cornerA z) (cornerB z) (cornerC z)
       (charIndexOf (lightIntensity (Vector3 NaN NaN NaN) L))
       (Some (Vector3 NaN NaN NaN, Vector3 NaN NaN NaN, Vector3 NaN NaN NaN)) (Some L)"
  by (simp add: drawTriangle_def Let_def cornerTriangle_fields applyMatrix_identity orElse_def
      applyMatrix_identity_NaN dot_def
      project_corners [OF assms(1-4)] cornerA_def cornerB_def cornerC_def)

lemma index_of_intensity:
  "charIndexOf (Num 0.35) = Num 3" "charIndexOf (Num 1) = Num 9" "charIndexOf NaN = NaN"
  by (simp_all add: charIndexOf_def asciiChars_def)

lemma lightIntensity_samples:
  "lightIntensity (point (0, 0, - 1)) lightRight = Num 0.35"
  "lightIntensity (point (0, 0, - 1)) lightFront = Num 1"
  "lightIntensity (point (1, 0, 0)) lightRight = Num 1"
  "lightIntensity (Vector3 NaN NaN NaN) L = NaN"
  by (simp_all add: lightIntensity_def Let_def dot_def lightRight_def lightFront_def point.simps)

lemma perPixelIntensity_samples:
  "perPixelIntensity (point (0, 0, - 1)) lightRight = Num 0.35"
  "perPixelIntensity (point (0, 0, - 1)) lightFront = Num 1"
  "perPixelIntensity (point (1, 0, 0)) lightRight = Num 1"
  "perPixelIntensity (Vector3 NaN NaN NaN) L = NaN"
  by (simp_all add: perPixelIntensity_def Let_def dot_def lightRight_def lightFront_def point.simps)


section \<open>Evaluating the rasterizer on the small grid\<close>

lemma loopValues_real:
  "loopValues (Num (real a)) (Num (real b)) = map real [a ..< Suc b]"
proof -
  have "nat (\<lfloor>real b - real a\<rfloor> + 1) = Suc b - a"
  proof (cases "a \<le> b")
    case True
    then have "real b - real a = real (b - a)" by simp
    then have "\<lfloor>real b - real a\<rfloor> = int (b - a)" by (simp only: floor_of_nat)
    with True show ?thesis by simp
  next
    case False
    then have "real b - real a < 0" by simp
    then have "\<lfloor>real b - real a\<rfloor> < 0" by (simp only: floor_less_zero)
    then have "nat (\<lfloor>real b - real a\<rfloor> + 1) = 0" by linarith
    with False show ?thesis by simp
  qed
  moreover have "map (\<lambda>k. real a + real k) [0 ..< Suc b - a] = map real [a ..< Suc b]"
    by (rule nth_equalityI) (auto simp: nth_append)
  ultimately show ?thesis by simp
qed

lemma loopValues_01: "loopValues (Num 0) (Num 1) = [0, 1]"
  using loopValues_real [of 0 1] by (simp add: upt_rec)

lemmas cell00 = rasterizeCell_in_grid [of 0 _ 0, simplified]
lemmas cell01 = rasterizeCell_in_grid [of 0 _ 1, simplified]
lemmas cell10 = rasterizeCell_in_grid [of 1 _ 0, simplified]
lemmas cell11 = rasterizeCell_in_grid [of 1 _ 1, simplified]

lemma corner_inside:
  "isPointInTriangle (Num 0) (Num 0) (cornerA z) (cornerB z) (cornerC z)"
  "isPointInTriangle (Num 1) (Num 0) (cornerA z) (cornerB z) (cornerC z)"
  "isPointInTriangle (Num 0) (Num 1) (cornerA z) (cornerB z) (cornerC z)"
  "\<not> isPointInTriangle (Num 1) (Num 1) (cornerA z) (cornerB z) (cornerC z)"
  by (simp_all add: isPointInTriangle_def containmentDenom_def Let_def cornerA_def cornerB_def cornerC_def)

lemma corner_flatDepth: "flatDepth (cornerA z) (cornerB z) (cornerC z) = Num z"
  by (simp add: flatDepth_def cornerA_def cornerB_def cornerC_def)

lemma corner_effectiveIndex:
  "usePerPixelLighting r \<Longrightarrow> effectiveIndex r p1 p2 p3 ci (Some vns) (Some L) x y =
     charIndexOf (perPixelIntensity (interpolatedNormal p1 p2 p3 vns x y) L)"
  by (simp add: effectiveIndex_def)

lemma corner_interpolated:
  "interpolatedNormal (cornerA z) (cornerB z) (cornerC z) (point n, point n, point n) (Num 0) (Num 0)
     = vec_normalize (point n)"
  "interpolatedNormal (cornerA z) (cornerB z) (cornerC z) (point n, point n, point n) (Num 1) (Num 0)
     = vec_normalize (point n)"
  "interpolatedNormal (cornerA z) (cornerB z) (cornerC z) (point n, point n, point n) (Num 0) (Num 1)
     = vec_normalize (point n)"
  by (cases n; simp add: interpolatedNormal_def perPixelDenom_def Let_def cornerA_def cornerB_def
      cornerC_def point.simps)+

lemma corner_interpolated_NaN:
  "interpolatedNormal (cornerA z) (cornerB z) (cornerC z)
     (Vector3 NaN NaN NaN, Vector3 NaN NaN NaN, Vector3 NaN NaN NaN) x y = Vector3 NaN NaN NaN"
  by (simp add: interpolatedNormal_def Let_def vec_normalize_def strictEq_def)

lemma corner_bounds:
  "Math_max (Num 0) (Math_min (Math_min (Num 0) (Num 1)) (Num 0)) = Num 0"
  "Math_min (Num (real (2::nat)) - Num 1) (Math_max (Math_max (Num 0) (Num 1)) (Num 0)) = Num 1"
  "Math_max (Num 0) (Math_min (Math_min (Num 0) (Num 0)) (Num 1)) = Num 0"
  "Math_min (Num (real (2::nat)) - Num 1) (Math_max (Math_max (Num 0) (Num 0)) (Num 1)) = Num 1"
  by simp_all

lemma rasterize_corner:
  "rasterizeTriangle (grid2 [[i00, i01], [i10, i11]] [[q00, q01], [q10, q11]] [[d00, d01], [d10, d11]])
      (cornerA z) (cornerB z) (cornerC z) ci (Some vns) (Some L)
   = Inr (grid2
       [[if Num z < d00 - Num 0.005
         then blendedIndex q00 (charIndexOf (perPixelIntensity
                (interpolatedNormal (cornerA z) (cornerB z) (cornerC z) vns (Num 0) (Num 0)) L))
         else i00,
         if Num z < d01 - Num 0.005
         then blendedIndex q01 (charIndexOf (perPixelIntensity
                (interpolatedNormal (cornerA z) (cornerB z) (cornerC z) vns (Num 1) (Num 0)) L))
         else i01],
        [if Num z < d10 - Num 0.005
         then blendedIndex q10 (charIndexOf (perPixelIntensity
                (interpolatedNormal (cornerA z) (cornerB z) (cornerC z) vns (Num 0) (Num 1)) L))
         else i10,
         i11]]
       [[q00, q01], [q10, q11]]
       [[if Num z < d00 - Num 0.005 then Num z else d00,
         if Num z < d01 - Num 0.005 then Num z else d01],
        [if Num z < d10 - Num 0.005 then Num z else d10, d11]])"
proof -
  have pts: "scr_x (cornerA z) = Num 0" "scr_y (cornerA z) = Num 0"
    "scr_x (cornerB z) = Num 1" "scr_y (cornerB z) = Num 0"
    "scr_x (cornerC z) = Num 0" "scr_y (cornerC z) = Num 1"
    by (simp_all add: cornerA_def cornerB_def cornerC_def)
  have dims: "width (grid2 a b c) = 2" "height (grid2 a b c) = 2" for a b c
    by (simp_all add: grid2_def)
  have start: "rasterizeTriangle (grid2 [[i00, i01], [i10, i11]] [[q00, q01], [q10, q11]] [[d00, d01], [d10, d11]])
      (cornerA z) (cornerB z) (cornerC z) ci (Some vns) (Some L)
    = yLoop (rasterizeCell (cornerA z) (cornerB z) (cornerC z) ci (Some vns) (Some L)) [0, 1] [0, 1]
        (grid2 [[i00, i01], [i10, i11]] [[q00, q01], [q10, q11]] [[d00, d01], [d10, d11]])"
    unfolding rasterizeTriangle_def pts dims Let_def corner_bounds loopValues_01 by simp
  show ?thesis
    unfolding start
    by (simp add: cell00 cell01 cell10 cell11 corner_inside corner_flatDepth corner_effectiveIndex
        grid2_def update2_def)
qed

lemma clear_grid2:
  "clear (grid2 [[i00, i01], [i10, i11]] prev [[d00, d01], [d10, d11]]) =
     grid2 [[Num (- 1), Num (- 1)], [Num (- 1), Num (- 1)]] prev
       [[Infinity, Infinity], [Infinity, Infinity]]"
  by (simp add: clear_def grid2_def clearCell_def update2_def upt_rec eval_nat_numeral)

lemma render_grid2:
  "render (grid2 [[i00, i01], [i10, i11]] [[q00, q01], [q10, q11]] depth) =
     (glyph i00 @ glyph i01 @ [CHR 0x0A] @ glyph i10 @ glyph i11 @ [CHR 0x0A],
      grid2 [[i00, i01], [i10, i11]] [[i00, i01], [i10, i11]] depth)"
  by (simp add: render_def renderRow_def renderCell_def grid2_def update2_def upt_rec eval_nat_numeral)

lemma smallRenderer_grid2:
  "smallRenderer = grid2 [[Num (- 1), Num (- 1)], [Num (- 1), Num (- 1)]]
     [[Num (- 1), Num (- 1)], [Num (- 1), Num (- 1)]] [[Infinity, Infinity], [Infinity, Infinity]]"
  by (simp add: smallRenderer_def new_TerminalRenderer_def grid2_def eval_nat_numeral)

lemma glyph_samples:
  "glyph (Num (- 1)) = '' ''" "glyph (Num 3) = ''-''" "glyph (Num 7) = ''%''" "glyph (Num 8) = ''@''"
  "glyph (Num 9) = ''#''" "glyph NaN = '' ''"
  by (simp_all add: glyph_def indexOf_def asciiChars_def eval_nat_numeral)


section \<open>Sample frames\<close>

lemma axis_normalize:
  "vec_normalize (point (0, 0, - 1)) = point (0, 0, - 1)"
  "vec_normalize (point (1, 0, 0)) = point (1, 0, 0)"
  by (simp_all add: vec_normalize_point)

lemma grid2_dims [simp]: "width (grid2 a b c) = 2" "height (grid2 a b c) = 2"
  by (simp_all add: grid2_def)

lemma blend_samples:
  "blendedIndex (Num (- 1)) e = e"
  "blendedIndex (Num 3) (Num 9) = Num 7"
  "blendedIndex (Num 7) (Num 9) = Num 8"
  "blendedIndex (Num 8) (Num 9) = Num 9"
  by (simp_all add: blendedIndex_def strictEq_def)

lemma draw_front:
  assumes "- 0.1 \<le> z" "z \<le> 0.1" "0 < n1 * 4 / 3 - n2 * 2 / 3 - n3 * (3 + z)"
    and "vec_normalize (point (n1, n2, n3)) = point (n1, n2, n3)"
    and "perPixelIntensity (point (n1, n2, n3)) L = Num c"
  shows "drawTriangle (grid2 [[i00, i01], [i10, i11]] [[q00, q01], [q10, q11]] [[d00, d01], [d10, d11]])
      (cornerTriangle z (point (n1, n2, n3))) identityMatrix L sampleDistance
   = Inr (grid2
       [[if Num z < d00 - Num 0.005 then blendedIndex q00 (charIndexOf (Num c)) else i00,
         if Num z < d01 - Num 0.005 then blendedIndex q01 (charIndexOf (Num c)) else i01],
        [if Num z < d10 - Num 0.005 then blendedIndex q10 (charIndexOf (Num c)) else i10, i11]]
       [[q00, q01], [q10, q11]]
       [[if Num z < d00 - Num 0.005 then Num z else d00,
         if Num z < d01 - Num 0.005 then Num z else d01],
        [if Num z < d10 - Num 0.005 then Num z else d10, d11]])"
  unfolding drawTriangle_corner [OF assms(1,2) grid2_dims assms(3)] rasterize_corner
    corner_interpolated assms(4,5) ..

lemma draw_NaN:
  "drawTriangle (grid2 [[i00, i01], [i10, i11]] [[q00, q01], [q10, q11]] [[d00, d01], [d10, d11]])
      (cornerTriangle 0 (Vector3 NaN b c)) identityMatrix L sampleDistance
   = Inr (grid2
       [[if Num 0 < d00 - Num 0.005 then blendedIndex q00 NaN else i00,
         if Num 0 < d01 - Num 0.005 then blendedIndex q01 NaN else i01],
        [if Num 0 < d10 - Num 0.005 then blendedIndex q10 NaN else i10, i11]]
       [[q00, q01], [q10, q11]]
       [[if Num 0 < d00 - Num 0.005 then Num 0 else d00,
         if Num 0 < d01 - Num 0.005 then Num 0 else d01],
        [if Num 0 < d10 - Num 0.005 then Num 0 else d10, d11]])"
proof -
  have z: "- 0.1 \<le> (0::real)" "(0::real) \<le> 0.1" by simp_all
  show ?thesis
    unfolding drawTriangle_corner_NaN [OF z grid2_dims] rasterize_corner corner_interpolated_NaN
      perPixelIntensity_samples index_of_intensity ..
qed

lemma draw_sample_dark:
  "drawTriangle (grid2 [[i00, i01], [i10, i11]] [[q00, q01], [q10, q11]] [[d00, d01], [d10, d11]])
      facingTriangle identityMatrix lightRight sampleDistance
   = Inr (grid2
       [[if Num 0 < d00 - Num 0.005 then blendedIndex q00 (Num 3) else i00,
         if Num 0 < d01 - Num 0.005 then blendedIndex q01 (Num 3) else i01],
        [if Num 0 < d10 - Num 0.005 then blendedIndex q10 (Num 3) else i10, i11]]
       [[q00, q01], [q10, q11]]
       [[if Num 0 < d00 - Num 0.005 then Num 0 else d00,
         if Num 0 < d01 - Num 0.005 then Num 0 else d01],
        [if Num 0 < d10 - Num 0.005 then Num 0 else d10, d11]])"
  unfolding facingTriangle_def
  using draw_front [of 0 0 0 "- 1" lightRight "0.35" i00 i01 i10 i11 q00 q01 q10 q11 d00 d01 d10 d11]
  by (simp add: axis_normalize perPixelIntensity_samples charIndexOf_def asciiChars_def)


lemma nearDepth_bounds: "- 0.1 \<le> nearDepth" "nearDepth \<le> 0.1"
  by (simp_all add: nearDepth_def)

lemma draw_sample_near:
  "drawTriangle (grid2 [[i00, i01], [i10, i11]] [[q00, q01], [q10, q11]] [[d00, d01], [d10, d11]])
      nearTriangle identityMatrix lightRight sampleDistance
   = Inr (grid2
       [[if Num nearDepth < d00 - Num 0.005 then blendedIndex q00 (Num 9) else i00,
         if Num nearDepth < d01 - Num 0.005 then blendedIndex q01 (Num 9) else i01],
        [if Num nearDepth < d10 - Num 0.005 then blendedIndex q10 (Num 9) else i10, i11]]
       [[q00, q01], [q10, q11]]
       [[if Num nearDepth < d00 - Num 0.005 then Num nearDepth else d00,
         if Num nearDepth < d01 - Num 0.005 then Num nearDepth else d01],
        [if Num nearDepth < d10 - Num 0.005 then Num nearDepth else d10, d11]])"
  unfolding nearTriangle_def
  using draw_front [OF nearDepth_bounds, of 1 0 0 lightRight 1 i00 i01 i10 i11 q00 q01 q10 q11 d00 d01 d10 d11]
  by (simp add: axis_normalize perPixelIntensity_samples charIndexOf_def asciiChars_def)

lemma draw_sample_NaN:
  "drawTriangle (grid2 [[i00, i01], [i10, i11]] [[q00, q01], [q10, q11]] [[d00, d01], [d10, d11]])
      nanTriangle identityMatrix L sampleDistance
   = Inr (grid2
       [[if Num 0 < d00 - Num 0.005 then blendedIndex q00 NaN else i00,
         if Num 0 < d01 - Num 0.005 then blendedIndex q01 NaN else i01],
        [if Num 0 < d10 - Num 0.005 then blendedIndex q10 NaN else i10, i11]]
       [[q00, q01], [q10, q11]]
       [[if Num 0 < d00 - Num 0.005 then Num 0 else d00,
         if Num 0 < d01 - Num 0.005 then Num 0 else d01],
        [if Num 0 < d10 - Num 0.005 then Num 0 else d10, d11]])"
  unfolding nanTriangle_def by (rule draw_NaN)


section \<open>The claims on the sample scene\<close>

lemma fresh_passes [simp]: "Num z < Infinity" "Num z < Infinity - Num b"
  by simp_all

text \<open>
  C4, as the claim states it, fails: mesh order matters beyond exactly equal depths. Two
  triangles cover the same three cells at the depths 0 and -0.003, which differ by less
  than the bias. Drawn in one order the frame shows the first triangle, in the other
  order the second.
\<close>

theorem mesh_order_matters_within_bias:
  "frame [facingTriangle, nearTriangle]
       identityMatrix lightRight sampleDistance smallRenderer
     = Inr (''--'' @ [CHR 0x0A] @ ''- '' @ [CHR 0x0A],
            grid2 [[Num 3, Num 3], [Num 3, Num (- 1)]] [[Num 3, Num 3], [Num 3, Num (- 1)]]
              [[Num 0, Num 0], [Num 0, Infinity]])
   \<and> frame [nearTriangle, facingTriangle]
       identityMatrix lightRight sampleDistance smallRenderer
     = Inr (''##'' @ [CHR 0x0A] @ ''# '' @ [CHR 0x0A],
            grid2 [[Num 9, Num 9], [Num 9, Num (- 1)]] [[Num 9, Num 9], [Num 9, Num (- 1)]]
              [[Num nearDepth, Num nearDepth], [Num nearDepth, Infinity]])
   \<and> flatDepth (cornerA 0) (cornerB 0) (cornerC 0)
       \<noteq> flatDepth (cornerA nearDepth) (cornerB nearDepth) (cornerC nearDepth)"
  by (simp add: frame_def smallRenderer_grid2 clear_grid2 draw_sample_dark draw_sample_near
      render_grid2 glyph_samples blend_samples corner_flatDepth nearDepth_def)



theorem backface_leaves_state_witness:
  "dot (applyMatrix (tri_normal (awayTriangle)) identityMatrix)
       (viewVector (applyMatrix (tri_v1 (awayTriangle)) identityMatrix)
          (applyMatrix (tri_v2 (awayTriangle)) identityMatrix)
          (applyMatrix (tri_v3 (awayTriangle)) identityMatrix) sampleDistance)
     \<le> Num 0
   \<and> drawTriangle smallRenderer (awayTriangle) identityMatrix lightRight
        sampleDistance = Inr smallRenderer"
proof -
  have h: "dot (applyMatrix (tri_normal (awayTriangle)) identityMatrix)
       (viewVector (applyMatrix (tri_v1 (awayTriangle)) identityMatrix)
          (applyMatrix (tri_v2 (awayTriangle)) identityMatrix)
          (applyMatrix (tri_v3 (awayTriangle)) identityMatrix) sampleDistance)
     \<le> Num 0"
    by (simp add: awayTriangle_def cornerTriangle_fields applyMatrix_identity corner_backface)
  from h backface_leaves_state [OF h] show ?thesis by blast
qed

theorem perPixel_denominator_witness:
  "isPointInTriangle (Num 0) (Num 0) (cornerA 0) (cornerB 0) (cornerC 0)
   \<and> perPixelDenom (cornerA 0) (cornerB 0) (cornerC 0) = containmentDenom (cornerA 0) (cornerB 0) (cornerC 0)
   \<and> Num 0.001 \<le> Math_abs (perPixelDenom (cornerA 0) (cornerB 0) (cornerC 0))
   \<and> perPixelDenom (cornerA 0) (cornerB 0) (cornerC 0) \<noteq> Num 0"
  using perPixel_denominator [OF corner_inside(1) [of 0]] corner_inside(1) [of 0] by blast

theorem depth_test_overwrite_witness:
  "isPointInTriangle (Num 0) (Num 0) (cornerA 0) (cornerB 0) (cornerC 0)
   \<and> rasterizeCell (cornerA 0) (cornerB 0) (cornerC 0) (Num 3) None None 0 0 smallRenderer
       = Inr (grid2 [[Num 3, Num (- 1)], [Num (- 1), Num (- 1)]]
                [[Num (- 1), Num (- 1)], [Num (- 1), Num (- 1)]]
                [[Num 0, Infinity], [Infinity, Infinity]])
   \<and> rasterizeCell (cornerA 0) (cornerB 0) (cornerC 0) (Num 9) None None 0 0
         (grid2 [[Num 3, Num (- 1)], [Num (- 1), Num (- 1)]]
                [[Num (- 1), Num (- 1)], [Num (- 1), Num (- 1)]]
                [[Num 0, Infinity], [Infinity, Infinity]])
       = Inr (grid2 [[Num 3, Num (- 1)], [Num (- 1), Num (- 1)]]
                [[Num (- 1), Num (- 1)], [Num (- 1), Num (- 1)]]
                [[Num 0, Infinity], [Infinity, Infinity]])
   \<and> rasterizeCell (cornerA nearDepth) (cornerB nearDepth) (cornerC nearDepth) (Num 9) None None 0 0
         (grid2 [[Num 3, Num (- 1)], [Num (- 1), Num (- 1)]]
                [[Num (- 1), Num (- 1)], [Num (- 1), Num (- 1)]]
                [[Num 0, Infinity], [Infinity, Infinity]])
       = Inr (grid2 [[Num 3, Num (- 1)], [Num (- 1), Num (- 1)]]
                [[Num (- 1), Num (- 1)], [Num (- 1), Num (- 1)]]
                [[Num 0, Infinity], [Infinity, Infinity]])"
proof -
  let ?g = "grid2 [[Num 3, Num (- 1)], [Num (- 1), Num (- 1)]]
                [[Num (- 1), Num (- 1)], [Num (- 1), Num (- 1)]]
                [[Num 0, Infinity], [Infinity, Infinity]]"
  have in1: "0 < length (depthBuffer smallRenderer)" "0 < length (depthBuffer smallRenderer ! 0)"
    "0 < length (prevIndexBuffer smallRenderer)" "0 < length (prevIndexBuffer smallRenderer ! 0)"
    by (simp_all add: smallRenderer_grid2 grid2_def)
  have in2: "0 < length (depthBuffer ?g)" "0 < length (depthBuffer ?g ! 0)"
    "0 < length (prevIndexBuffer ?g)" "0 < length (prevIndexBuffer ?g ! 0)"
    by (simp_all add: grid2_def)
  have c0: "isPointInTriangle (Num (real (0::nat))) (Num (real (0::nat))) (cornerA z) (cornerB z) (cornerC z)" for z
    using corner_inside(1) [of z] by simp
  have w1: "rasterizeCell (cornerA 0) (cornerB 0) (cornerC 0) (Num 3) None None 0 0 smallRenderer = Inr ?g"
    using depth_test_overwrite [OF in1 c0 [of 0], of "Num 3" None None]
    by (simp add: corner_flatDepth smallRenderer_grid2 grid2_def update2_def effectiveIndex_def
        blend_samples)
  have w2: "rasterizeCell (cornerA 0) (cornerB 0) (cornerC 0) (Num 9) None None 0 0 ?g = Inr ?g"
    using depth_test_overwrite [OF in2 c0 [of 0], of "Num 9" None None]
    by (simp add: corner_flatDepth grid2_def)
  have w3: "rasterizeCell (cornerA nearDepth) (cornerB nearDepth) (cornerC nearDepth) (Num 9) None None 0 0 ?g
      = Inr ?g"
    using depth_test_overwrite [OF in2 c0 [of nearDepth], of "Num 9" None None]
    by (simp add: corner_flatDepth grid2_def nearDepth_def)
  from w1 w2 w3 corner_inside(1) [of 0] show ?thesis by blast
qed

section \<open>The invariant of the index grids\<close>

subsection \<open>Grids\<close>

lemma fold_preserves:
  assumes "\<And>x s. x \<in> set xs \<Longrightarrow> P s \<Longrightarrow> P (f x s)" and "P s"
  shows "P (fold f xs s)"
  using assms by (induction xs arbitrary: s) auto

lemma list_all_update: "list_all P xs \<Longrightarrow> P v \<Longrightarrow> list_all P (xs[i := v])"
  using set_update_subset_insert [of xs i v] by (auto simp: list_all_iff)

lemma hasShape_update2: "hasShape h w grid \<Longrightarrow> hasShape h w (update2 grid y x v)"
proof (cases "y < length grid")
  case True
  assume a: "hasShape h w grid"
  with True have "length ((grid ! y)[x := v]) = w" by (simp add: hasShape_def list_all_length)
  with a show ?thesis by (simp add: hasShape_def update2_def list_all_update)
next
  case False
  assume "hasShape h w grid"
  with False show ?thesis by (simp add: update2_def list_update_beyond)
qed

lemma gridValid_update2: "gridValid grid \<Longrightarrow> validIndex v \<Longrightarrow> gridValid (update2 grid y x v)"
proof (cases "y < length grid")
  case True
  assume a: "gridValid grid" "validIndex v"
  with True have "list_all validIndex (grid ! y)" by (simp add: gridValid_def list_all_length)
  with a show ?thesis by (simp add: gridValid_def update2_def list_all_update)
next
  case False
  assume "gridValid grid"
  with False show ?thesis by (simp add: update2_def list_update_beyond)
qed

lemma gridValid_nth: "gridValid grid \<Longrightarrow> y < length grid \<Longrightarrow> x < length (grid ! y) \<Longrightarrow> validIndex (grid ! y ! x)"
  by (simp add: gridValid_def list_all_length)

lemma hasShape_length: "hasShape h w grid \<Longrightarrow> length grid = h"
  by (simp add: hasShape_def)

lemma hasShape_row: "hasShape h w grid \<Longrightarrow> y < h \<Longrightarrow> length (grid ! y) = w"
  by (simp add: hasShape_def list_all_length)

lemma hasShape_replicate: "hasShape h w (replicate h (replicate w v))"
  by (simp add: hasShape_def list_all_length)

lemma gridValid_replicate: "validIndex v \<Longrightarrow> gridValid (replicate h (replicate w v))"
  by (simp add: gridValid_def list_all_length)

lemma validIndex_empty: "validIndex (Num (- 1))"
  by (simp add: validIndex_def)

lemma litIndex_valid: "litIndex v \<Longrightarrow> validIndex v"
  by (simp add: validIndex_def)

subsection \<open>Lit indices\<close>

text \<open>
  The lemmas of this subsection and of the next are lemmas of exact arithmetic: they hold
  in the model for finite inputs of any magnitude. The theorem on the index grids applies
  them to inputs within range only, for which the program's doubles neither overflow nor
  produce \<open>NaN\<close>.
\<close>

lemma litIndex_int: "litIndex v = (\<exists>k::int. v = Num (of_int k) \<and> 3 \<le> k \<and> k \<le> 9)"
proof
  assume "litIndex v"
  then obtain q where q: "v = Num q" "q \<in> \<int>" "3 \<le> q" "q \<le> 9"
    by (cases v) (auto simp: litIndex_def)
  from q(2) obtain k :: int where "q = of_int k" by (auto elim: Ints_cases)
  with q show "\<exists>k::int. v = Num (of_int k) \<and> 3 \<le> k \<and> k \<le> 9" by auto
next
  assume "\<exists>k::int. v = Num (of_int k) \<and> 3 \<le> k \<and> k \<le> 9"
  then show "litIndex v" by (auto simp: litIndex_def)
qed

lemma intensity_index: "0.35 \<le> c \<Longrightarrow> c \<le> 1 \<Longrightarrow> litIndex (charIndexOf (Num c))"
proof -
  assume a: "0.35 \<le> c" "c \<le> 1"
  then have "of_int 3 \<le> c * 9" "c * 9 < of_int 9 + 1" by simp_all
  then have "3 \<le> \<lfloor>c * 9\<rfloor>" "\<lfloor>c * 9\<rfloor> \<le> 9"
    by (simp_all only: le_floor_iff floor_le_iff)
  then show ?thesis unfolding litIndex_int
    by (simp add: charIndexOf_def asciiChars_def)
qed

lemma exponent_not_int: "(1.2 :: real) \<notin> \<int>"
proof
  assume "(1.2 :: real) \<in> \<int>"
  then obtain k :: int where k: "(1.2 :: real) = of_int k" by (auto elim: Ints_cases)
  then have "(6 :: real) = of_int (5 * k)" by simp
  then have "(6 :: int) = 5 * k" by linarith
  then show False by presburger
qed

lemma pow_nonneg: "0 \<le> d \<Longrightarrow> \<exists>p. Math_pow (Num d) (Num 1.2) = Num p \<and> 0 \<le> p"
  using exponent_not_int by (cases "d = 0") auto

lemma shade_bounds:
  assumes "0 \<le> d"
  shows "\<exists>c. Math_min (Num 1) (Math_max (Num 0.25) (Math_pow (Num d) (Num 1.2) * Num 0.7 + Num 0.35)) = Num c
     \<and> Math_min (Num 1) (Math_max (Num 0.25) (Num 0.35 + Math_pow (Num d) (Num 1.2) * Num 0.7)) = Num c
     \<and> 0.35 \<le> c \<and> c \<le> 1"
proof -
  from pow_nonneg [OF assms] obtain p where p: "Math_pow (Num d) (Num 1.2) = Num p" "0 \<le> p" by blast
  show ?thesis unfolding p(1) using p(2) by (simp add: min_def max_def add.commute)
qed

lemma dot_finite: "finiteVector a \<Longrightarrow> finiteVector b \<Longrightarrow> \<exists>d. dot a b = Num d"
  by (cases a; cases b) (auto simp: finiteVector_def isFinite_def dot_def split: number.splits)

lemma lightIntensity_lit:
  assumes "finiteVector n" "finiteVector L"
  shows "litIndex (charIndexOf (lightIntensity n L))"
proof -
  from dot_finite [OF assms] obtain d where d: "dot n L = Num d" by blast
  from shade_bounds [of "max 0 d"] obtain c where
    "Math_min (Num 1) (Math_max (Num 0.25) (Math_pow (Num (max 0 d)) (Num 1.2) * Num 0.7 + Num 0.35)) = Num c"
    "0.35 \<le> c" "c \<le> 1" by auto
  then show ?thesis
    using intensity_index [of c] by (simp add: lightIntensity_def d Let_def del: Math_pow.simps)
qed

lemma perPixelIntensity_lit:
  assumes "finiteVector n" "finiteVector L"
  shows "litIndex (charIndexOf (perPixelIntensity n L))"
proof -
  from dot_finite [OF assms] obtain d where d: "dot n L = Num d" by blast
  from shade_bounds [of "max 0 d"] obtain c where
    "Math_min (Num 1) (Math_max (Num 0.25) (Num 0.35 + Math_pow (Num (max 0 d)) (Num 1.2) * Num 0.7)) = Num c"
    "0.35 \<le> c" "c \<le> 1" by auto
  then show ?thesis
    using intensity_index [of c]
    by (simp add: perPixelIntensity_def d Let_def del: Math_pow.simps)
qed

lemma weights_finite:
  assumes "Num 0 \<le> a" "Num 0 \<le> b" "Num 0 \<le> Num 1 - a - b"
  shows "isFinite a \<and> isFinite b"
  using assms by (cases a; cases b) (simp_all add: isFinite_def minus_number_def less_eq_number_def)

lemma interpolatedNormal_finite:
  assumes "isPointInTriangle x y p1 p2 p3"
    and "finiteVector n1" "finiteVector n2" "finiteVector n3"
  shows "finiteVector (interpolatedNormal p1 p2 p3 (n1, n2, n3) x y)"
proof -
  let ?a = "((scr_y p2 - scr_y p3) * (x - scr_x p3) + (scr_x p3 - scr_x p2) * (y - scr_y p3))
              / containmentDenom p1 p2 p3"
  let ?b = "((scr_y p3 - scr_y p1) * (x - scr_x p3) + (scr_x p1 - scr_x p3) * (y - scr_y p3))
              / containmentDenom p1 p2 p3"
  from assms(1) have "Num 0 \<le> ?a" "Num 0 \<le> ?b" "Num 0 \<le> Num 1 - ?a - ?b"
    by (auto simp: isPointInTriangle_def Let_def split: if_splits)
  from weights_finite [OF this] obtain a b where ab: "?a = Num a" "?b = Num b"
    by (auto simp: isFinite_def split: number.splits)
  have eq: "perPixelDenom p1 p2 p3 = containmentDenom p1 p2 p3"
    by (simp add: perPixelDenom_def containmentDenom_def)
  from assms(2-4) obtain u1 u2 u3 where n: "n1 = point u1" "n2 = point u2" "n3 = point u3"
    using point_cases by blast
  obtain a1 b1 c1 a2 b2 c2 a3 b3 c3 where u: "u1 = (a1, b1, c1)" "u2 = (a2, b2, c2)" "u3 = (a3, b3, c3)"
    by (cases u1, cases u2, cases u3) auto
  have "interpolatedNormal p1 p2 p3 (n1, n2, n3) x y =
      vec_normalize (point (a1 * a + a2 * b + a3 * (1 - a - b), b1 * a + b2 * b + b3 * (1 - a - b),
         c1 * a + c2 * b + c3 * (1 - a - b)))"
    unfolding interpolatedNormal_def eq Let_def prod.case ab n u
    by (simp add: point.simps)
  then show ?thesis by (simp add: vec_normalize_finite)
qed

lemma effectiveIndex_lit:
  assumes "isPointInTriangle x y p1 p2 p3" and "litIndex ci"
    and "finiteVector n1" "finiteVector n2" "finiteVector n3" "finiteVector L"
  shows "litIndex (effectiveIndex r p1 p2 p3 ci (Some (n1, n2, n3)) (Some L) x y)"
  using assms
  by (cases "usePerPixelLighting r")
     (simp_all add: effectiveIndex_def perPixelIntensity_lit interpolatedNormal_finite)

lemma blendedIndex_lit:
  assumes "validIndex p" "litIndex e"
  shows "litIndex (blendedIndex p e)"
proof (cases "p = Num (- 1)")
  case True
  with assms show ?thesis by (simp add: blendedIndex_empty)
next
  case False
  with assms obtain j k :: int where jk: "p = Num (of_int j)" "3 \<le> j" "j \<le> 9"
      "e = Num (of_int k)" "3 \<le> k" "k \<le> 9"
    by (auto simp: validIndex_def litIndex_int)
  then have "j \<noteq> - 1" by simp
  from blendedIndex_int [OF this, of k]
  have b: "blendedIndex p e = Num (of_int ((3 * j + 7 * k + 5) div 10))" by (simp add: jk)
  from jk have "3 \<le> (3 * j + 7 * k + 5) div 10" "(3 * j + 7 * k + 5) div 10 \<le> 9" by linarith+
  then show ?thesis unfolding b litIndex_int by blast
qed

subsection \<open>Rasterizing preserves the invariant\<close>

lemma rasterizeCell_preserves:
  assumes wf: "wellFormed r" and inv: "frameInvariant r" and j: "j < height r"
    and lit: "\<And>r x y. isPointInTriangle (Num x) (Num y) p1 p2 p3 \<Longrightarrow>
        litIndex (effectiveIndex r p1 p2 p3 ci vn ld (Num x) (Num y))"
  shows "\<exists>r'. rasterizeCell p1 p2 p3 ci vn ld (real j) x r = Inr r'
     \<and> wellFormed r' \<and> frameInvariant r' \<and> height r' = height r \<and> width r' = width r"
proof -
  from wf j have rowD: "gridRow (depthBuffer r) (real j) = Some (j, depthBuffer r ! j)"
    and rowP: "gridRow (prevIndexBuffer r) (real j) = Some (j, prevIndexBuffer r ! j)"
    and lenD: "length (depthBuffer r ! j) = width r"
    and lenP: "length (prevIndexBuffer r ! j) = width r"
    and lenPg: "j < length (prevIndexBuffer r)"
    by (simp_all add: gridRow_real wellFormed_def hasShape_def list_all_length)
  show ?thesis
  proof (cases "isPointInTriangle (Num x) (Num (real j)) p1 p2 p3
      \<and> flatDepth p1 p2 p3 < rowCell (depthBuffer r ! j) x - Num 0.005")
    case False
    with wf inv rowD show ?thesis by (auto simp: rasterizeCell_def Let_def)
  next
    case True
    then have "rowCell (depthBuffer r ! j) x \<noteq> NaN" by auto
    then obtain i where i: "indexOf x (width r) = Some i"
      by (auto simp: rowCell_def lenD split: option.splits)
    then have iw: "i < width r" and ix: "i = nat \<lfloor>x\<rfloor>"
      by (auto simp: indexOf_def split: if_splits)
    have prev: "rowCell (prevIndexBuffer r ! j) x = prevIndexBuffer r ! j ! i"
      by (simp add: rowCell_def lenP i)
    from inv have v: "validIndex (prevIndexBuffer r ! j ! i)"
      by (intro gridValid_nth) (simp_all add: frameInvariant_def lenPg lenP iw)
    from True have "litIndex (effectiveIndex r p1 p2 p3 ci vn ld (Num x) (Num (real j)))"
      by (intro lit) simp
    with v have b: "validIndex (blendedIndex (prevIndexBuffer r ! j ! i)
        (effectiveIndex r p1 p2 p3 ci vn ld (Num x) (Num (real j))))"
      by (intro litIndex_valid) (rule blendedIndex_lit)
    let ?r = "r\<lparr> indexBuffer := update2 (indexBuffer r) j i
                  (blendedIndex (prevIndexBuffer r ! j ! i)
                     (effectiveIndex r p1 p2 p3 ci vn ld (Num x) (Num (real j)))),
               depthBuffer := update2 (depthBuffer r) j i (flatDepth p1 p2 p3) \<rparr>"
    from True have "rasterizeCell p1 p2 p3 ci vn ld (real j) x r = Inr ?r"
      by (simp add: rasterizeCell_def Let_def rowD rowP prev ix [symmetric])
    moreover from wf have "wellFormed ?r"
      by (simp add: wellFormed_def hasShape_update2)
    moreover from inv b have "frameInvariant ?r"
      by (simp add: frameInvariant_def gridValid_update2)
    ultimately show ?thesis by simp
  qed
qed

lemma xLoop_preserves:
  assumes "\<And>x r. I r \<Longrightarrow> \<exists>r'. body x r = Inr r' \<and> I r'"
  shows "I r \<Longrightarrow> \<exists>r'. xLoop body xs r = Inr r' \<and> I r'"
proof (induction xs arbitrary: r)
  case Nil
  then show ?case by simp
next
  case (Cons x xs)
  from assms [OF Cons.prems, of x] obtain r1 where r1: "body x r = Inr r1" "I r1" by blast
  from Cons.IH [OF r1(2)] show ?case by (simp add: r1(1))
qed

lemma yLoop_preserves:
  assumes "\<And>y x r. y \<in> set ys \<Longrightarrow> I r \<Longrightarrow> \<exists>r'. body y x r = Inr r' \<and> I r'"
  shows "I r \<Longrightarrow> \<exists>r'. yLoop body ys xs r = Inr r' \<and> I r'"
  using assms
proof (induction ys arbitrary: r)
  case Nil
  then show ?case by simp
next
  case (Cons y ys)
  have "\<exists>r'. xLoop (body y) xs r = Inr r' \<and> I r'"
    by (rule xLoop_preserves [where I = I]) (auto intro: Cons.prems)
  then obtain r1 where r1: "xLoop (body y) xs r = Inr r1" "I r1" by blast
  have "\<exists>r'. yLoop body ys xs r1 = Inr r' \<and> I r'"
    by (rule Cons.IH [OF r1(2)]) (auto intro: Cons.prems(2))
  then show ?case by (simp add: r1(1))
qed

lemma Math_floor_integral: "Math_floor a = Num q \<Longrightarrow> q \<in> \<int>"
  by (cases a) auto

lemma projectToScreen_integral: "scr_y (projectToScreen r v cd) = Num q \<Longrightarrow> q \<in> \<int>"
  by (auto simp: projectToScreen_def Let_def dest: Math_floor_integral split: if_splits)

lemma Math_min_cases: "Math_min a b = Num q \<Longrightarrow> a = Num q \<or> b = Num q"
  by (auto simp: Math_min_def split: if_splits)

lemma loopValues_rows:
  assumes m: "\<And>q. m = Num q \<Longrightarrow> q \<in> \<int>"
    and y: "y \<in> set (loopValues (Math_max (Num 0) m) (Math_min (Num (real h) - Num 1) M))"
  shows "\<exists>j. y = real j \<and> j < h"
proof -
  from y obtain lo hi where lh: "Math_max (Num 0) m = Num lo" "Math_min (Num (real h) - Num 1) M = Num hi"
    by (cases "Math_max (Num 0) m"; cases "Math_min (Num (real h) - Num 1) M") auto
  from lh(1) m have lo: "lo \<in> \<int>" "0 \<le> lo"
    by (cases m; auto simp: Math_max_def max_def split: if_splits)+
  from lh(2) have hi: "hi \<le> real h - 1"
    by (cases M) (auto simp: Math_min_def split: if_splits)
  from y obtain k where k: "y = lo + real k" "k < nat (\<lfloor>hi - lo\<rfloor> + 1)"
    unfolding lh by auto
  from lo obtain l :: nat where l: "lo = real l"
    by (metis Ints_cases of_int_0_le_iff of_int_of_nat_eq zero_le_imp_eq_int)
  from k(2) have "real k \<le> hi - lo" by linarith
  with hi k(1) l have "real (l + k) < real h" by simp
  then have "l + k < h" by linarith
  with k(1) l show ?thesis by (intro exI [of _ "l + k"]) simp
qed

lemma rasterizeTriangle_preserves:
  assumes wf: "wellFormed r" and inv: "frameInvariant r"
    and int: "\<And>q. scr_y p1 = Num q \<Longrightarrow> q \<in> \<int>" "\<And>q. scr_y p2 = Num q \<Longrightarrow> q \<in> \<int>"
      "\<And>q. scr_y p3 = Num q \<Longrightarrow> q \<in> \<int>"
    and lit: "\<And>r x y. isPointInTriangle (Num x) (Num y) p1 p2 p3 \<Longrightarrow>
        litIndex (effectiveIndex r p1 p2 p3 ci vn ld (Num x) (Num y))"
  shows "\<exists>r'. rasterizeTriangle r p1 p2 p3 ci vn ld = Inr r' \<and> wellFormed r' \<and> frameInvariant r'"
proof -
  let ?I = "\<lambda>s. wellFormed s \<and> frameInvariant s \<and> height s = height r \<and> width s = width r"
  let ?ys = "loopValues (Math_max (Num 0) (Math_min (Math_min (scr_y p1) (scr_y p2)) (scr_y p3)))
       (Math_min (Num (real (height r)) - Num 1) (Math_max (Math_max (scr_y p1) (scr_y p2)) (scr_y p3)))"
  have m: "\<And>q. Math_min (Math_min (scr_y p1) (scr_y p2)) (scr_y p3) = Num q \<Longrightarrow> q \<in> \<int>"
    using int by (blast dest: Math_min_cases)
  have body: "\<exists>r'. rasterizeCell p1 p2 p3 ci vn ld y x s = Inr r' \<and> ?I r'"
    if "y \<in> set ?ys" "?I s" for y x s
  proof -
    from loopValues_rows [OF m that(1)] obtain j where j: "y = real j" "j < height r" by blast
    with that(2) have "j < height s" by simp
    have "\<exists>r'. rasterizeCell p1 p2 p3 ci vn ld (real j) x s = Inr r'
       \<and> wellFormed r' \<and> frameInvariant r' \<and> height r' = height s \<and> width r' = width s"
      using that(2) \<open>j < height s\<close> lit by (intro rasterizeCell_preserves) auto
    with that(2) show ?thesis unfolding j(1) by auto
  qed
  have "\<exists>r'. yLoop (rasterizeCell p1 p2 p3 ci vn ld) ?ys xs r = Inr r' \<and> ?I r'" for xs
    by (rule yLoop_preserves [where I = ?I]) (use body wf inv in auto)
  with wf inv show ?thesis
    by (auto simp: rasterizeTriangle_def Let_def)
qed

lemma drawTriangle_preserves:
  assumes wf: "wellFormed r" and inv: "frameInvariant r"
    and fin: "finiteNormals t" "finiteMatrix m" "finiteVector L"
  shows "\<exists>r'. drawTriangle r t m L cd = Inr r' \<and> wellFormed r' \<and> frameInvariant r'"
proof (cases "dot (applyMatrix (tri_normal t) m)
       (viewVector (applyMatrix (tri_v1 t) m) (applyMatrix (tri_v2 t) m)
          (applyMatrix (tri_v3 t) m) cd) \<le> Num 0")
  case True
  with wf inv show ?thesis by (simp add: drawTriangle_def Let_def)
next
  case False
  let ?p1 = "projectToScreen r (applyMatrix (tri_v1 t) m) cd"
  let ?p2 = "projectToScreen r (applyMatrix (tri_v2 t) m) cd"
  let ?p3 = "projectToScreen r (applyMatrix (tri_v3 t) m) cd"
  let ?n1 = "applyMatrix (orElse (tri_vn1 t) (tri_normal t)) m"
  let ?n2 = "applyMatrix (orElse (tri_vn2 t) (tri_normal t)) m"
  let ?n3 = "applyMatrix (orElse (tri_vn3 t) (tri_normal t)) m"
  let ?ci = "charIndexOf (lightIntensity (applyMatrix (tri_normal t) m) L)"
  from fin have n: "finiteVector (applyMatrix (tri_normal t) m)" "finiteVector ?n1"
      "finiteVector ?n2" "finiteVector ?n3"
    by (simp_all add: finiteNormals_def applyMatrix_finite)
  from n(1) fin(3) have ci: "litIndex ?ci" by (rule lightIntensity_lit)
  have "\<exists>r'. rasterizeTriangle r ?p1 ?p2 ?p3 ?ci (Some (?n1, ?n2, ?n3)) (Some L) = Inr r'
      \<and> wellFormed r' \<and> frameInvariant r'"
    using wf inv
  proof (rule rasterizeTriangle_preserves)
    fix s x y
    assume "isPointInTriangle (Num x) (Num y) ?p1 ?p2 ?p3"
    then show "litIndex (effectiveIndex s ?p1 ?p2 ?p3 ?ci (Some (?n1, ?n2, ?n3)) (Some L) (Num x) (Num y))"
      using ci n(2-4) fin(3) by (rule effectiveIndex_lit)
  qed (auto dest: projectToScreen_integral)
  with False show ?thesis by (simp add: drawTriangle_def Let_def)
qed

lemma drawAll_preserves:
  assumes "\<forall>t \<in> set ts. finiteNormals t" "finiteMatrix m" "finiteVector L"
  shows "wellFormed r \<Longrightarrow> frameInvariant r \<Longrightarrow>
     \<exists>r'. drawAll ts m L cd r = Inr r' \<and> wellFormed r' \<and> frameInvariant r'"
  using assms(1)
proof (induction ts arbitrary: r)
  case Nil
  then show ?case by simp
next
  case (Cons t ts)
  from Cons.prems have "finiteNormals t" by simp
  from drawTriangle_preserves [OF Cons.prems(1,2) this assms(2,3), of cd]
  obtain r1 where r1: "drawTriangle r t m L cd = Inr r1" "wellFormed r1" "frameInvariant r1" by blast
  from Cons.IH [OF r1(2,3)] Cons.prems(3) show ?case by (simp add: r1(1))
qed

subsection \<open>Clearing and rendering preserve the invariant\<close>

lemma clear_preserves:
  assumes "wellFormed r" "frameInvariant r"
  shows "wellFormed (clear r) \<and> frameInvariant (clear r)"
proof -
  let ?I = "\<lambda>s. wellFormed s \<and> frameInvariant s"
  have cell: "?I (clearCell y x s)" if "?I s" for y x s
    using that
    by (simp add: clearCell_def wellFormed_def frameInvariant_def hasShape_update2
        gridValid_update2 validIndex_empty)
  have row: "?I (fold (clearCell y) xs s)" if "?I s" for y xs s
    by (rule fold_preserves [where P = ?I]) (use cell that in auto)
  have "?I (fold (\<lambda>y. fold (clearCell y) [0 ..< width r]) [0 ..< height r] r)"
    by (rule fold_preserves [where P = ?I]) (use row assms in auto)
  then show ?thesis by (simp add: clear_def)
qed

lemma render_preserves:
  assumes "wellFormed r" "frameInvariant r"
  shows "wellFormed (snd (render r)) \<and> frameInvariant (snd (render r))"
proof -
  let ?I = "\<lambda>st. wellFormed (snd st) \<and> frameInvariant (snd st)
      \<and> height (snd st) = height r \<and> width (snd st) = width r"
  have cell: "?I (renderCell y x st)" if "?I st" "y < height r" "x < width r" for y x st
  proof -
    obtain line s where st: "st = (line, s)" by (cases st)
    from that st have s: "wellFormed s" "frameInvariant s" "y < height s" "x < width s"
        "height s = height r" "width s = width r"
      by simp_all
    then have "validIndex (indexBuffer s ! y ! x)"
      by (intro gridValid_nth)
         (simp_all add: frameInvariant_def wellFormed_def hasShape_def list_all_length)
    with s show ?thesis
      by (simp add: st renderCell_def Let_def wellFormed_def frameInvariant_def hasShape_update2
          gridValid_update2)
  qed
  have row: "?I (renderRow y st)" if "?I st" "y < height r" for y st
  proof -
    obtain out s where st: "st = (out, s)" by (cases st)
    have "?I (fold (renderCell y) [0 ..< width s] ([], s))"
      by (rule fold_preserves [where P = ?I]) (use cell that st in auto)
    then show ?thesis by (auto simp: st renderRow_def split: prod.splits)
  qed
  have "?I (fold renderRow [0 ..< height r] ([], r))"
    by (rule fold_preserves [where P = ?I]) (use row assms in auto)
  then show ?thesis by (simp add: render_def)
qed

lemma new_TerminalRenderer_invariant:
  "wellFormed (new_TerminalRenderer w h u) \<and> frameInvariant (new_TerminalRenderer w h u)"
  by (simp add: new_TerminalRenderer_def wellFormed_def frameInvariant_def hasShape_replicate
      gridValid_replicate validIndex_empty)

lemma glyph_lit:
  assumes "litIndex v"
  shows "\<exists>c. glyph v = [c] \<and> c \<in> set ''-+*=%@#''"
proof -
  from assms obtain k :: int where k: "v = Num (of_int k)" "3 \<le> k" "k \<le> 9"
    unfolding litIndex_int by blast
  then have "k = 3 \<or> k = 4 \<or> k = 5 \<or> k = 6 \<or> k = 7 \<or> k = 8 \<or> k = 9" by presburger
  then show ?thesis
    unfolding k(1) by (elim disjE) (simp_all add: glyph_def indexOf_def asciiChars_def)
qed

subsection \<open>Magnitudes within range\<close>

text \<open>
  For normals, matrix entries and light components of magnitude at most \<open>10^60\<close>, the
  exact values that the lighting computes stay far inside the range of doubles: a
  transformed normal has components of magnitude at most \<open>3 * 10^120\<close>; its dot product
  with the light is at most \<open>9 * 10^180\<close>; the barycentric weights of a covered cell lie
  between 0 and 1, so that an interpolated normal has components of at most \<open>9 * 10^120\<close>
  and squares of at most \<open>81 * 10^240\<close>; and a normalized vector has components of
  magnitude at most 1.
\<close>

lemma product_bound:
  fixes a b :: real
  assumes "\<bar>a\<bar> \<le> A" "\<bar>b\<bar> \<le> B"
  shows "\<bar>a * b\<bar> \<le> A * B"
proof -
  have "0 \<le> A" using assms(1) by linarith
  with assms show ?thesis unfolding abs_mult by (intro mult_mono) simp_all
qed

lemma row_bound:
  fixes a b c :: real
  assumes "\<bar>a\<bar> \<le> A" "\<bar>b\<bar> \<le> A" "\<bar>c\<bar> \<le> A"
    and "\<bar>x\<bar> \<le> B" "\<bar>y\<bar> \<le> B" "\<bar>z\<bar> \<le> B"
  shows "\<bar>a * x + b * y + c * z\<bar> \<le> 3 * (A * B)"
  using product_bound [OF assms(1) assms(4)] product_bound [OF assms(2) assms(5)]
    product_bound [OF assms(3) assms(6)]
  by linarith

lemma withinRange_cases: "withinRange a \<Longrightarrow> \<exists>r. a = Num r \<and> \<bar>r\<bar> \<le> 10 ^ 60"
  by (cases a) (simp_all add: withinRange_def)

lemma transformed_in_range:
  assumes "boundedVector v" "boundedMatrix m"
  shows "\<exists>x y z. applyMatrix v m = Vector3 (Num x) (Num y) (Num z)
     \<and> \<bar>x\<bar> \<le> 3 * 10 ^ 120 \<and> \<bar>y\<bar> \<le> 3 * 10 ^ 120 \<and> \<bar>z\<bar> \<le> 3 * 10 ^ 120"
proof -
  obtain m00 m01 m02 m10 m11 m12 m20 m21 m22 where
    m: "m = ((m00, m01, m02), (m10, m11, m12), (m20, m21, m22))"
    by (cases m rule: finiteMatrix.cases)
  from assms(2) have w: "withinRange m00" "withinRange m01" "withinRange m02" "withinRange m10"
      "withinRange m11" "withinRange m12" "withinRange m20" "withinRange m21" "withinRange m22"
    unfolding m by simp_all
  from withinRange_cases [OF w(1)] obtain r00 where r00: "m00 = Num r00" "\<bar>r00\<bar> \<le> 10 ^ 60" by blast
  from withinRange_cases [OF w(2)] obtain r01 where r01: "m01 = Num r01" "\<bar>r01\<bar> \<le> 10 ^ 60" by blast
  from withinRange_cases [OF w(3)] obtain r02 where r02: "m02 = Num r02" "\<bar>r02\<bar> \<le> 10 ^ 60" by blast
  from withinRange_cases [OF w(4)] obtain r10 where r10: "m10 = Num r10" "\<bar>r10\<bar> \<le> 10 ^ 60" by blast
  from withinRange_cases [OF w(5)] obtain r11 where r11: "m11 = Num r11" "\<bar>r11\<bar> \<le> 10 ^ 60" by blast
  from withinRange_cases [OF w(6)] obtain r12 where r12: "m12 = Num r12" "\<bar>r12\<bar> \<le> 10 ^ 60" by blast
  from withinRange_cases [OF w(7)] obtain r20 where r20: "m20 = Num r20" "\<bar>r20\<bar> \<le> 10 ^ 60" by blast
  from withinRange_cases [OF w(8)] obtain r21 where r21: "m21 = Num r21" "\<bar>r21\<bar> \<le> 10 ^ 60" by blast
  from withinRange_cases [OF w(9)] obtain r22 where r22: "m22 = Num r22" "\<bar>r22\<bar> \<le> 10 ^ 60" by blast
  note r = r00(1) r01(1) r02(1) r10(1) r11(1) r12(1) r20(1) r21(1) r22(1)
  note b = r00(2) r01(2) r02(2) r10(2) r11(2) r12(2) r20(2) r21(2) r22(2)
  from assms(1) obtain a b' c where
    v: "v = Vector3 (Num a) (Num b') (Num c)" and
    vb: "\<bar>a\<bar> \<le> 10 ^ 60" "\<bar>b'\<bar> \<le> 10 ^ 60" "\<bar>c\<bar> \<le> 10 ^ 60"
    by (cases v) (auto simp: boundedVector_def dest!: withinRange_cases)
  have e: "3 * ((10::real) ^ 60 * 10 ^ 60) = 3 * 10 ^ 120" by (simp add: power_add [symmetric])
  have "\<bar>a * r00 + b' * r01 + c * r02\<bar> \<le> 3 * 10 ^ 120"
       "\<bar>a * r10 + b' * r11 + c * r12\<bar> \<le> 3 * 10 ^ 120"
       "\<bar>a * r20 + b' * r21 + c * r22\<bar> \<le> 3 * 10 ^ 120"
    using row_bound [OF vb b(1,2,3)] row_bound [OF vb b(4,5,6)] row_bound [OF vb b(7,8,9)]
    unfolding e by simp_all
  then show ?thesis unfolding v m r by simp
qed

lemma dot_in_range:
  assumes "\<bar>x\<bar> \<le> 3 * 10 ^ 120" "\<bar>y\<bar> \<le> 3 * 10 ^ 120" "\<bar>z\<bar> \<le> 3 * 10 ^ 120"
    and "boundedVector L"
  shows "\<exists>d. dot (Vector3 (Num x) (Num y) (Num z)) L = Num d \<and> \<bar>d\<bar> \<le> 9 * 10 ^ 180"
proof -
  from assms(4) obtain a b c where
    v: "L = Vector3 (Num a) (Num b) (Num c)" and
    vb: "\<bar>a\<bar> \<le> 10 ^ 60" "\<bar>b\<bar> \<le> 10 ^ 60" "\<bar>c\<bar> \<le> 10 ^ 60"
    by (cases L) (auto simp: boundedVector_def dest!: withinRange_cases)
  have e: "3 * (3 * (10::real) ^ 120 * 10 ^ 60) = 9 * 10 ^ 180" by (simp add: power_add [symmetric])
  have "\<bar>x * a + y * b + z * c\<bar> \<le> 9 * 10 ^ 180"
    using row_bound [OF assms(1-3) vb] unfolding e .
  then show ?thesis unfolding v by (simp add: dot_def)
qed

lemma weights_in_unit_interval:
  assumes "isPointInTriangle px py p1 p2 p3"
  shows "\<exists>a b. ((scr_y p2 - scr_y p3) * (px - scr_x p3) + (scr_x p3 - scr_x p2) * (py - scr_y p3))
              / perPixelDenom p1 p2 p3 = Num a
     \<and> ((scr_y p3 - scr_y p1) * (px - scr_x p3) + (scr_x p1 - scr_x p3) * (py - scr_y p3))
              / perPixelDenom p1 p2 p3 = Num b
     \<and> 0 \<le> a \<and> 0 \<le> b \<and> a + b \<le> 1"
proof -
  let ?a = "((scr_y p2 - scr_y p3) * (px - scr_x p3) + (scr_x p3 - scr_x p2) * (py - scr_y p3))
              / containmentDenom p1 p2 p3"
  let ?b = "((scr_y p3 - scr_y p1) * (px - scr_x p3) + (scr_x p1 - scr_x p3) * (py - scr_y p3))
              / containmentDenom p1 p2 p3"
  have eq: "perPixelDenom p1 p2 p3 = containmentDenom p1 p2 p3"
    by (simp add: perPixelDenom_def containmentDenom_def)
  from assms have c: "Num 0 \<le> ?a" "Num 0 \<le> ?b" "Num 0 \<le> Num 1 - ?a - ?b"
    by (auto simp: isPointInTriangle_def Let_def split: if_splits)
  from weights_finite [OF this] obtain a b where ab: "?a = Num a" "?b = Num b"
    by (auto simp: isFinite_def split: number.splits)
  from c show ?thesis unfolding eq ab by auto
qed

lemma vec_normalize_in_range:
  assumes "finiteVector v"
  shows "\<exists>x y z. vec_normalize v = Vector3 (Num x) (Num y) (Num z)
     \<and> \<bar>x\<bar> \<le> 1 \<and> \<bar>y\<bar> \<le> 1 \<and> \<bar>z\<bar> \<le> 1"
proof -
  from assms obtain a b c where v: "v = point (a, b, c)" using point_cases by blast
  show ?thesis
  proof (cases "a = 0 \<and> b = 0 \<and> c = 0")
    case True
    then have "vec_normalize v = Vector3 (Num 0) (Num 0) (Num 0)"
      unfolding v vec_normalize_point by (simp add: Vector3_zero_def)
    then show ?thesis by (intro exI [of _ 0]) simp
  next
    case False
    let ?s = "sqrt (a * a + b * b + c * c)"
    have sq: "a * a \<le> a * a + b * b + c * c" "b * b \<le> a * a + b * b + c * c"
      "c * c \<le> a * a + b * b + c * c" by simp_all
    have "\<bar>a\<bar> \<le> ?s" "\<bar>b\<bar> \<le> ?s" "\<bar>c\<bar> \<le> ?s"
      using sq by (metis real_sqrt_abs2 real_sqrt_le_iff)+
    moreover have "0 < ?s" using False sum_squares3_pos [of a b c] by simp
    ultimately have "\<bar>a / ?s\<bar> \<le> 1" "\<bar>b / ?s\<bar> \<le> 1" "\<bar>c / ?s\<bar> \<le> 1"
      by (simp_all add: abs_divide)
    then have "point (a / ?s, b / ?s, c / ?s) = Vector3 (Num (a / ?s)) (Num (b / ?s)) (Num (c / ?s))
        \<and> \<bar>a / ?s\<bar> \<le> 1 \<and> \<bar>b / ?s\<bar> \<le> 1 \<and> \<bar>c / ?s\<bar> \<le> 1"
      by (simp add: point.simps)
    moreover have "vec_normalize v = point (a / ?s, b / ?s, c / ?s)"
      unfolding v vec_normalize_point by (simp only: False if_False)
    ultimately show ?thesis by (simp only:) blast
  qed
qed

text \<open>
  C9, as the claim states it, fails: \<open>drawTriangle\<close> does not preserve the invariant for
  every triangle. A face normal with the component \<open>NaN\<close> (which \<open>parseFloat\<close> returns for
  a token that is no number, and which the binary reader returns for the bits of a \<open>NaN\<close>)
  passes the back-face test, since \<open>NaN <= 0\<close> is false, and the cells the triangle covers
  get the index \<open>NaN\<close>: neither -1 nor an integer from 3 to 9. The frame shows these drawn
  cells as spaces, and \<open>render\<close> copies \<open>NaN\<close> into the previous-frame grid.
\<close>

theorem NaN_normal_breaks_index_invariant:
  "wellFormed smallRenderer \<and> frameInvariant smallRenderer
   \<and> finiteMatrix identityMatrix \<and> finiteVector lightRight
   \<and> drawTriangle smallRenderer nanTriangle identityMatrix lightRight sampleDistance
       = Inr (grid2 [[NaN, NaN], [NaN, Num (- 1)]]
                [[Num (- 1), Num (- 1)], [Num (- 1), Num (- 1)]]
                [[Num 0, Num 0], [Num 0, Infinity]])
   \<and> \<not> frameInvariant (grid2 [[NaN, NaN], [NaN, Num (- 1)]]
                [[Num (- 1), Num (- 1)], [Num (- 1), Num (- 1)]]
                [[Num 0, Num 0], [Num 0, Infinity]])
   \<and> frame [nanTriangle] identityMatrix lightRight sampleDistance smallRenderer
       = Inr (''  '' @ [CHR 0x0A] @ ''  '' @ [CHR 0x0A],
              grid2 [[NaN, NaN], [NaN, Num (- 1)]] [[NaN, NaN], [NaN, Num (- 1)]]
                [[Num 0, Num 0], [Num 0, Infinity]])
   \<and> \<not> frameInvariant (grid2 [[NaN, NaN], [NaN, Num (- 1)]] [[NaN, NaN], [NaN, Num (- 1)]]
                [[Num 0, Num 0], [Num 0, Infinity]])"
proof -
  have 1: "wellFormed smallRenderer \<and> frameInvariant smallRenderer"
    unfolding smallRenderer_def by (rule new_TerminalRenderer_invariant)
  have 2: "finiteMatrix identityMatrix \<and> finiteVector lightRight"
    by (simp add: identityMatrix_def isFinite_def lightRight_def)
  have 3: "drawTriangle smallRenderer nanTriangle identityMatrix lightRight sampleDistance
       = Inr (grid2 [[NaN, NaN], [NaN, Num (- 1)]]
                [[Num (- 1), Num (- 1)], [Num (- 1), Num (- 1)]]
                [[Num 0, Num 0], [Num 0, Infinity]])"
    by (simp add: smallRenderer_grid2 draw_sample_NaN blend_samples)
  have 4: "\<not> gridValid [[NaN, NaN], [NaN, Num (- 1)]]"
    by (simp add: gridValid_def validIndex_def litIndex_def)
  have 5: "frame [nanTriangle] identityMatrix lightRight sampleDistance smallRenderer
       = Inr (''  '' @ [CHR 0x0A] @ ''  '' @ [CHR 0x0A],
              grid2 [[NaN, NaN], [NaN, Num (- 1)]] [[NaN, NaN], [NaN, Num (- 1)]]
                [[Num 0, Num 0], [Num 0, Infinity]])"
    by (simp add: frame_def smallRenderer_grid2 clear_grid2 draw_sample_NaN render_grid2
        glyph_samples blend_samples)
  from 4 have 6: "\<not> frameInvariant (grid2 [[NaN, NaN], [NaN, Num (- 1)]] prev depth)" for prev depth
    by (simp add: frameInvariant_def grid2_def)
  from 1 2 3 5 6 show ?thesis by blast
qed

text \<open>
  C9, amended. A renderer as the constructor makes it has grids of \<open>height\<close> rows of
  \<open>width\<close> cells whose index entries are all -1. For a renderer with grids of that shape
  whose index entries, current and previous, are each -1 or an integer from 3 to 9:
  \<open>clear\<close> and \<open>render\<close> give such a renderer again; so does \<open>drawTriangle\<close>, without an
  exception, for a triangle whose face and vertex normals, a rotation matrix whose entries
  and a light direction whose components are finite and of magnitude at most \<open>10^60\<close>
  (the vertices and the camera distance are any numbers); and so does a whole frame over
  a mesh of such triangles. An index from 3 to 9 selects one character of the ramp, and it
  is none of the three sparsest: it is one of \<open>- + * = % @ #\<close>.
\<close>

theorem index_grids_invariant:
  "(wellFormed (new_TerminalRenderer w h u) \<and> frameInvariant (new_TerminalRenderer w h u))
   \<and> (wellFormed r \<and> frameInvariant r \<longrightarrow>
        wellFormed (clear r) \<and> frameInvariant (clear r)
        \<and> wellFormed (snd (render r)) \<and> frameInvariant (snd (render r))
        \<and> (boundedNormals t \<and> boundedMatrix m \<and> boundedVector L \<longrightarrow>
             (\<exists>r'. drawTriangle r t m L cd = Inr r' \<and> wellFormed r' \<and> frameInvariant r'))
        \<and> ((\<forall>t \<in> set ts. boundedNormals t) \<and> boundedMatrix m \<and> boundedVector L \<longrightarrow>
             (\<exists>out r'. frame ts m L cd r = Inr (out, r') \<and> wellFormed r' \<and> frameInvariant r')))
   \<and> (litIndex v \<longrightarrow> (\<exists>c. glyph v = [c] \<and> c \<in> set ''-+*=%@#''))"
proof (intro conjI impI)
  show "wellFormed (new_TerminalRenderer w h u)" "frameInvariant (new_TerminalRenderer w h u)"
    using new_TerminalRenderer_invariant by blast+
next
  assume a: "wellFormed r \<and> frameInvariant r"
  then show "wellFormed (clear r)" "frameInvariant (clear r)"
    using clear_preserves by blast+
  from a show "wellFormed (snd (render r))" "frameInvariant (snd (render r))"
    using render_preserves by blast+
  {
    assume "boundedNormals t \<and> boundedMatrix m \<and> boundedVector L"
    then have "finiteNormals t \<and> finiteMatrix m \<and> finiteVector L"
      by (simp add: boundedNormals_finite boundedMatrix_finite boundedVector_finite)
    with a show "\<exists>r'. drawTriangle r t m L cd = Inr r' \<and> wellFormed r' \<and> frameInvariant r'"
      using drawTriangle_preserves by blast
  }
  {
    assume b: "(\<forall>t \<in> set ts. boundedNormals t) \<and> boundedMatrix m \<and> boundedVector L"
    then have f: "(\<forall>t \<in> set ts. finiteNormals t) \<and> finiteMatrix m \<and> finiteVector L"
      by (simp add: boundedNormals_finite boundedMatrix_finite boundedVector_finite)
    from a clear_preserves have c: "wellFormed (clear r)" "frameInvariant (clear r)" by blast+
    from f have "\<exists>r'. drawAll ts m L cd (clear r) = Inr r' \<and> wellFormed r' \<and> frameInvariant r'"
      by (intro drawAll_preserves c) simp_all
    then obtain r1 where r1: "drawAll ts m L cd (clear r) = Inr r1" "wellFormed r1" "frameInvariant r1"
      by blast
    from render_preserves [OF r1(2,3)]
    have "frame ts m L cd r = Inr (fst (render r1), snd (render r1))
        \<and> wellFormed (snd (render r1)) \<and> frameInvariant (snd (render r1))"
      by (simp add: frame_def r1(1))
    then show "\<exists>out r'. frame ts m L cd r = Inr (out, r') \<and> wellFormed r' \<and> frameInvariant r'"
      by blast
  }
next
  assume "litIndex v"
  then show "\<exists>c. glyph v = [c] \<and> c \<in> set ''-+*=%@#''" by (rule glyph_lit)
qed

theorem index_grids_invariant_witness:
  "wellFormed smallRenderer \<and> frameInvariant smallRenderer
   \<and> boundedNormals facingTriangle \<and> boundedNormals nearTriangle
   \<and> boundedMatrix identityMatrix \<and> boundedVector lightRight
   \<and> wellFormed (clear smallRenderer) \<and> frameInvariant (clear smallRenderer)
   \<and> wellFormed (snd (render smallRenderer)) \<and> frameInvariant (snd (render smallRenderer))
   \<and> drawTriangle smallRenderer facingTriangle identityMatrix lightRight sampleDistance
       = Inr (grid2 [[Num 3, Num 3], [Num 3, Num (- 1)]]
                [[Num (- 1), Num (- 1)], [Num (- 1), Num (- 1)]]
                [[Num 0, Num 0], [Num 0, Infinity]])
   \<and> wellFormed (grid2 [[Num 3, Num 3], [Num 3, Num (- 1)]]
                [[Num (- 1), Num (- 1)], [Num (- 1), Num (- 1)]]
                [[Num 0, Num 0], [Num 0, Infinity]])
   \<and> frameInvariant (grid2 [[Num 3, Num 3], [Num 3, Num (- 1)]]
                [[Num (- 1), Num (- 1)], [Num (- 1), Num (- 1)]]
                [[Num 0, Num 0], [Num 0, Infinity]])
   \<and> (\<exists>out r'. frame [facingTriangle, nearTriangle] identityMatrix lightRight sampleDistance
          smallRenderer = Inr (out, r') \<and> wellFormed r' \<and> frameInvariant r')
   \<and> litIndex (Num 3) \<and> glyph (Num 3) = ''-''"
proof -
  let ?G = "grid2 [[Num 3, Num 3], [Num 3, Num (- 1)]]
                [[Num (- 1), Num (- 1)], [Num (- 1), Num (- 1)]]
                [[Num 0, Num 0], [Num 0, Infinity]]"
  have s: "wellFormed smallRenderer \<and> frameInvariant smallRenderer"
    using index_grids_invariant [of 2 2 True] by (simp add: smallRenderer_def)
  have n: "boundedNormals facingTriangle" "boundedNormals nearTriangle"
    by (simp_all add: boundedNormals_def boundedVector_def withinRange_def facingTriangle_def
        nearTriangle_def cornerTriangle_def new_Triangle_def orElse_def point.simps)
  have f: "boundedMatrix identityMatrix \<and> boundedVector lightRight"
    by (simp add: bounded_samples)
  have l: "litIndex (Num 3)" by (simp add: litIndex_def)
  have d: "drawTriangle smallRenderer facingTriangle identityMatrix lightRight sampleDistance = Inr ?G"
    by (simp add: smallRenderer_grid2 draw_sample_dark blend_samples)
  from index_grids_invariant [of 2 2 True smallRenderer facingTriangle identityMatrix lightRight
      sampleDistance "[facingTriangle, nearTriangle]" "Num 3"] s n f l
  have w: "wellFormed (clear smallRenderer) \<and> frameInvariant (clear smallRenderer)
      \<and> wellFormed (snd (render smallRenderer)) \<and> frameInvariant (snd (render smallRenderer))
      \<and> (\<exists>r'. drawTriangle smallRenderer facingTriangle identityMatrix lightRight sampleDistance = Inr r'
            \<and> wellFormed r' \<and> frameInvariant r')
      \<and> (\<exists>out r'. frame [facingTriangle, nearTriangle] identityMatrix lightRight sampleDistance
            smallRenderer = Inr (out, r') \<and> wellFormed r' \<and> frameInvariant r')"
    by simp
  then have g: "wellFormed ?G \<and> frameInvariant ?G" unfolding d by simp
  from s n f l d w g show ?thesis by (simp add: glyph_samples)
qed

end
